theory Spec2Isabelle
  imports Main
begin

section \<open>JavaScript values\<close>

text \<open>
  The handlers of \<^verbatim>\<open>src/lib/relay-auth.ts\<close> work on whatever \<^verbatim>\<open>JSON.parse(event.data)\<close>
  returns (the variable \<^verbatim>\<open>message\<close> has type \<^verbatim>\<open>any\<close>), so inbound messages are modelled as
  untyped JavaScript values. A string is a list of characters, one per code unit;
  an object lists its own properties, each key once. Numbers are restricted to
  integers: the code only tests a number for truthiness, compares a length with 64 and
  interpolates it into an error text.
\<close>

datatype jsval =
    JUndefined
  | JNull
  | JBool bool
  | JNum int
  | JStr string
  | JArr "jsval list"
  | JObj "(string \<times> jsval) list"

text \<open>
  The payload of a message event, as \<^verbatim>\<open>JSON.parse(event.data)\<close> sees it: \<open>None\<close> when the
  call throws a SyntaxError, \<open>Some v\<close> when it returns \<open>v\<close>.
\<close>

type_synonym payload = "jsval option"

fun decimal :: "nat \<Rightarrow> string" where
  "decimal n =
     (if n < 10 then [''0123456789'' ! n]
      else decimal (n div 10) @ [''0123456789'' ! (n mod 10)])"

declare decimal.simps [simp del]

definition int_decimal :: "int \<Rightarrow> string" where
  "int_decimal i = (if i < 0 then CHR ''-'' # decimal (nat (- i)) else decimal (nat i))"

text \<open>Reading a property of \<open>undefined\<close> or \<open>null\<close> throws a TypeError.\<close>

definition js_nullish :: "jsval \<Rightarrow> bool" where
  "js_nullish v = (v = JUndefined \<or> v = JNull)"

text \<open>
  \<^verbatim>\<open>v[i]\<close> for a value that is neither \<open>undefined\<close> nor \<open>null\<close>: an element of an array, a
  one-character string of a string, the own property named by the decimal index of an
  object, \<open>undefined\<close> in every other case and out of range.
\<close>

definition js_get :: "jsval \<Rightarrow> nat \<Rightarrow> jsval" where
  "js_get v i =
     (case v of
        JArr xs \<Rightarrow> (if i < length xs then xs ! i else JUndefined)
      | JStr s \<Rightarrow> (if i < length s then JStr [s ! i] else JUndefined)
      | JObj kvs \<Rightarrow> (case map_of kvs (decimal i) of None \<Rightarrow> JUndefined | Some x \<Rightarrow> x)
      | _ \<Rightarrow> JUndefined)"

text \<open>\<^verbatim>\<open>v.length\<close>; \<open>None\<close> is the TypeError on \<open>undefined\<close> and \<open>null\<close>.\<close>

definition js_length :: "jsval \<Rightarrow> jsval option" where
  "js_length v =
     (case v of
        JUndefined \<Rightarrow> None
      | JNull \<Rightarrow> None
      | JStr s \<Rightarrow> Some (JNum (int (length s)))
      | JArr xs \<Rightarrow> Some (JNum (int (length xs)))
      | JObj kvs \<Rightarrow> Some (case map_of kvs ''length'' of None \<Rightarrow> JUndefined | Some x \<Rightarrow> x)
      | _ \<Rightarrow> Some JUndefined)"

definition js_truthy :: "jsval \<Rightarrow> bool" where
  "js_truthy v =
     (case v of
        JUndefined \<Rightarrow> False
      | JNull \<Rightarrow> False
      | JBool b \<Rightarrow> b
      | JNum n \<Rightarrow> n \<noteq> 0
      | JStr s \<Rightarrow> s \<noteq> []
      | _ \<Rightarrow> True)"

fun includes_str :: "string \<Rightarrow> string \<Rightarrow> bool" where
  "includes_str [] p = (p = [])"
| "includes_str (c # cs) p = (take (length p) (c # cs) = p \<or> includes_str cs p)"

text \<open>
  \<^verbatim>\<open>v.includes(p)\<close> for a truthy \<open>v\<close>: substring search on a string, membership on an
  array; every other truthy value has no callable \<^verbatim>\<open>includes\<close>, and the call throws a
  TypeError (\<open>None\<close>).
\<close>

definition js_includes :: "jsval \<Rightarrow> string \<Rightarrow> bool option" where
  "js_includes v p =
     (case v of
        JStr s \<Rightarrow> Some (includes_str s p)
      | JArr xs \<Rightarrow> Some (JStr p \<in> set xs)
      | _ \<Rightarrow> None)"

text \<open>
  The string a template literal \<^verbatim>\<open>`${v}`\<close> makes of a value. An array joins its elements
  with commas (\<open>null\<close> and \<open>undefined\<close> elements as the empty string). A parsed object
  prints as \<^verbatim>\<open>[object Object]\<close>, but one with an own property \<^verbatim>\<open>toString\<close> (which parsed
  JSON cannot make callable) cannot be converted: a TypeError (\<open>None\<close>).
\<close>

fun js_toString :: "jsval \<Rightarrow> string option"
  and js_join :: "jsval list \<Rightarrow> string option"
where
  "js_toString JUndefined = Some ''undefined''"
| "js_toString JNull = Some ''null''"
| "js_toString (JBool b) = Some (if b then ''true'' else ''false'')"
| "js_toString (JNum n) = Some (int_decimal n)"
| "js_toString (JStr s) = Some s"
| "js_toString (JArr xs) = js_join xs"
| "js_toString (JObj kvs) =
     (if ''toString'' \<in> fst ` set kvs then None else Some ''[object Object]'')"
| "js_join [] = Some []"
| "js_join (x # xs) =
     (case (if js_nullish x then Some [] else js_toString x) of
        None \<Rightarrow> None
      | Some s \<Rightarrow>
          (if xs = [] then Some s
           else (case js_join xs of None \<Rightarrow> None | Some r \<Rightarrow> Some (s @ '','' @ r))))"

section \<open>Events, promises, timers\<close>

text \<open>
  An error value: \<open>Error m\<close> is \<^verbatim>\<open>new Error(m)\<close>; the others are what the runtime throws
  (a property read on \<open>null\<close>, \<^verbatim>\<open>send\<close> on a socket that is still connecting, the
  \<^verbatim>\<open>WebSocket\<close> constructor on a bad URL) and what the external signer rejects with.
\<close>

datatype error =
    Error string
  | TypeError
  | InvalidStateError
  | SyntaxError
  | SignerError string

text \<open>The errors the two services construct, by the message the code gives them.\<close>

definition SignerUnavailable :: error where
  "SignerUnavailable =
     Error ''NIP-07 extension not found. Please install a Nostr extension like Alby or nos2x.''"

definition NotAuthenticated :: error where
  "NotAuthenticated = Error ''Must authenticate first before publishing''"

definition AuthenticationTimeout :: error where
  "AuthenticationTimeout = Error ''Authentication timeout''"

definition AuthenticationFailed :: error where
  "AuthenticationFailed = Error ''Authentication required but failed''"

definition TransportError :: error where
  "TransportError = Error ''WebSocket connection failed''"

definition PublishTimeout :: error where
  "PublishTimeout = Error ''Publish timeout''"

definition PublishFailed :: "string \<Rightarrow> error" where
  "PublishFailed m = Error (''Publish failed: '' @ m)"

text \<open>
  The object literal handed to \<^verbatim>\<open>signer.signEvent\<close>, and the \<^verbatim>\<open>NostrEvent\<close> it returns:
  the same fields plus the identifier and the signature.
\<close>

record 'a unsigned_event =
  kind :: int
  created_at :: int
  tags :: "'a list list"
  content :: string
  pubkey :: string

record NostrEvent = "string unsigned_event" +
  event_id :: string
  sig :: string

text \<open>What is handed to \<^verbatim>\<open>send\<close>: the array that \<^verbatim>\<open>JSON.stringify\<close> serialises.\<close>

datatype outmsg =
    REQ string "(string \<times> jsval) list"
  | AUTH NostrEvent
  | EVENT NostrEvent

datatype settled = Pending | Resolved jsval | Rejected error

text \<open>
  The callback of a timer is a closure over the \<^verbatim>\<open>reject\<close> of one promise; promises,
  timers and sockets are referred to by their index in the store.
\<close>

datatype timer_callback = RejectAuthTimeout nat | RejectPublishTimeout nat

record timer =
  callback :: timer_callback
  delay :: int
  live :: bool

text \<open>
  The fields both \<^verbatim>\<open>NostrAuthService\<close> classes have (\<^verbatim>\<open>relay\<close>, \<^verbatim>\<open>isAuthenticated\<close>,
  \<^verbatim>\<open>config\<close>), and the part of the host they use: whether \<^verbatim>\<open>window.nostr\<close> is there,
  the clock \<^verbatim>\<open>Date.now()\<close>, the promises the calls returned and the timers they set.
\<close>

record service =
  relay :: "nat option"
  isAuthenticated :: bool
  relayUrl :: string
  timeout :: "int option"
  nostr :: bool
  now :: int
  promises :: "settled list"
  timers :: "timer list"

definition modify :: "nat \<Rightarrow> ('a \<Rightarrow> 'a) \<Rightarrow> 'a list \<Rightarrow> 'a list" where
  "modify i f xs = (if i < length xs then xs[i := f (xs ! i)] else xs)"

text \<open>\<^verbatim>\<open>resolve\<close> and \<^verbatim>\<open>reject\<close>: a promise settles once, later calls change nothing.\<close>

definition settle :: "nat \<Rightarrow> settled \<Rightarrow> 'a service_scheme \<Rightarrow> 'a service_scheme" where
  "settle p v w = w\<lparr>promises := modify p (\<lambda>s. if s = Pending then v else s) (promises w)\<rparr>"

text \<open>\<^verbatim>\<open>this.config.timeout || 10000\<close>: absent and zero both give the default.\<close>

definition timeout_or_default :: "'a service_scheme \<Rightarrow> int" where
  "timeout_or_default w =
     (case timeout w of None \<Rightarrow> 10000 | Some n \<Rightarrow> if n = 0 then 10000 else n)"

definition setTimeout :: "timer_callback \<Rightarrow> 'a service_scheme \<Rightarrow> nat \<times> 'a service_scheme" where
  "setTimeout cb w =
     (length (timers w),
      w\<lparr>timers := timers w @ [\<lparr>callback = cb, delay = timeout_or_default w, live = True\<rparr>]\<rparr>)"

definition clearTimeout :: "nat \<Rightarrow> 'a service_scheme \<Rightarrow> 'a service_scheme" where
  "clearTimeout t w = w\<lparr>timers := modify t (\<lambda>x. x\<lparr>live := False\<rparr>) (timers w)\<rparr>"

text \<open>
  The two timer callbacks, \<^verbatim>\<open>() => { reject(new Error('Authentication timeout')) }\<close> and
  \<^verbatim>\<open>() => { reject(new Error('Publish timeout')) }\<close>: each only rejects its promise.
\<close>

definition auth_timeout :: "nat \<Rightarrow> 'a service_scheme \<Rightarrow> 'a service_scheme" where
  "auth_timeout p w = settle p (Rejected AuthenticationTimeout) w"

definition publish_timeout :: "nat \<Rightarrow> 'a service_scheme \<Rightarrow> 'a service_scheme" where
  "publish_timeout p w = settle p (Rejected PublishTimeout) w"

text \<open>
  The host fires a timer that has not been cleared, once: the timer is spent (no longer
  live) and its callback runs.
\<close>

definition timer_fires :: "nat \<Rightarrow> 'a service_scheme \<Rightarrow> 'a service_scheme" where
  "timer_fires t w =
     (if t < length (timers w) \<and> live (timers w ! t) then
        (let w1 = w\<lparr>timers := modify t (\<lambda>x. x\<lparr>live := False\<rparr>) (timers w)\<rparr> in
         case callback (timers w ! t) of
           RejectAuthTimeout p \<Rightarrow> auth_timeout p w1
         | RejectPublishTimeout p \<Rightarrow> publish_timeout p w1)
      else w)"

text \<open>\<^verbatim>\<open>getNip07Signer\<close>: throws when \<^verbatim>\<open>window\<close> or \<^verbatim>\<open>window.nostr\<close> is missing.\<close>

definition getNip07Signer :: "'a service_scheme \<Rightarrow> error + unit" where
  "getNip07Signer w = (if \<not> nostr w then Inl SignerUnavailable else Inr ())"

definition getAuthStatus :: "'a service_scheme \<Rightarrow> bool" where
  "getAuthStatus w = isAuthenticated w"

section \<open>The WebSocket service: \<^verbatim>\<open>src/lib/relay-auth.ts\<close>\<close>

datatype ready_state = CONNECTING | OPEN | CLOSING | CLOSED

text \<open>
  The two closures the class installs as \<^verbatim>\<open>onmessage\<close>, with what each captures: the
  handshake handler of \<^verbatim>\<open>authenticate\<close> (the public key, its timer, its promise) and the
  handler of one \<^verbatim>\<open>publishKind30078Event\<close> call (\<^verbatim>\<open>originalOnMessage\<close>, \<^verbatim>\<open>signedEvent\<close>, its
  timer, its promise).
\<close>

datatype handler =
    AuthOnMessage string nat nat
  | PublishOnMessage "handler option" NostrEvent nat nat

text \<open>
  A \<^verbatim>\<open>WebSocket\<close>: \<^verbatim>\<open>onopen\<close> and \<^verbatim>\<open>onclose\<close> are set or not (the closures capture nothing but
  \<^verbatim>\<open>this\<close>), \<^verbatim>\<open>onerror\<close> captures the timer and the promise of \<^verbatim>\<open>authenticate\<close>; \<open>sent\<close> lists
  what the socket transmitted.
\<close>

record websocket =
  url :: string
  readyState :: ready_state
  onopen :: bool
  onmessage :: "handler option"
  onerror :: "(nat \<times> nat) option"
  onclose :: bool
  sent :: "outmsg list"

text \<open>
  An async function suspended at an \<^verbatim>\<open>await\<close> on the external signer, with the variables
  its continuation uses. For the two \<^verbatim>\<open>signEvent\<close> calls this is also the record of what
  the signer was asked to sign.
\<close>

datatype continuation =
    AuthenticateAwaitsPubkey nat
  | OnMessageAwaitsSign "jsval unsigned_event"
  | PublishAwaitsPubkey nat string string "string list list"
  | PublishAwaitsSign nat "string unsigned_event"
  | Resumed

text \<open>
  The service of \<^verbatim>\<open>relay-auth.ts\<close> adds the field \<^verbatim>\<open>authChallenge\<close>; \<open>url_ok\<close> says whether
  \<^verbatim>\<open>new WebSocket(this.config.relayUrl)\<close> returns a socket (it throws a SyntaxError on a
  URL it cannot use).
\<close>

record world = service +
  authChallenge :: jsval
  url_ok :: bool
  sockets :: "websocket list"
  awaiting :: "continuation list"

text \<open>The state after \<^verbatim>\<open>new NostrAuthService(config)\<close>, in a host with nothing pending.\<close>

definition new_service :: "string \<Rightarrow> int option \<Rightarrow> bool \<Rightarrow> bool \<Rightarrow> int \<Rightarrow> world" where
  "new_service u tmo ext ok clock =
     \<lparr>relay = None, isAuthenticated = False, relayUrl = u, timeout = tmo,
      nostr = ext, now = clock, promises = [], timers = [],
      authChallenge = JNull, url_ok = ok, sockets = [], awaiting = []\<rparr>"

text \<open>
  \<^verbatim>\<open>socket.send(m)\<close>: an InvalidStateError while the socket is connecting, transmitted
  when it is open, silently dropped when it is closing or closed.
\<close>

definition ws_send :: "nat \<Rightarrow> outmsg \<Rightarrow> world \<Rightarrow> error + world" where
  "ws_send r m w =
     (if r < length (sockets w) then
        (case readyState (sockets w ! r) of
           CONNECTING \<Rightarrow> Inl InvalidStateError
         | OPEN \<Rightarrow> Inr (w\<lparr>sockets := modify r (\<lambda>s. s\<lparr>sent := sent s @ [m]\<rparr>) (sockets w)\<rparr>)
         | CLOSING \<Rightarrow> Inr w
         | CLOSED \<Rightarrow> Inr w)
      else Inl TypeError)"

text \<open>\<^verbatim>\<open>this.relay!.send(m)\<close>: a TypeError when \<^verbatim>\<open>this.relay\<close> is \<open>null\<close>.\<close>

definition relay_send :: "outmsg \<Rightarrow> world \<Rightarrow> error + world" where
  "relay_send m w = (case relay w of None \<Rightarrow> Inl TypeError | Some r \<Rightarrow> ws_send r m w)"

subsection \<open>\<^verbatim>\<open>authenticate\<close>\<close>

text \<open>
  The call returns a promise (its index). Up to the first \<^verbatim>\<open>await\<close> on the signer:
  \<^verbatim>\<open>getNip07Signer\<close> throws, and the promise is rejected, or \<^verbatim>\<open>signer.getPublicKey()\<close> is
  called and the function is suspended.
\<close>

definition authenticate :: "world \<Rightarrow> nat \<times> world" where
  "authenticate w0 =
     (let p = length (promises w0);
          w = w0\<lparr>promises := promises w0 @ [Pending]\<rparr>
      in case getNip07Signer w of
           Inl e \<Rightarrow> (p, settle p (Rejected e) w)
         | Inr _ \<Rightarrow> (p, w\<lparr>awaiting := awaiting w @ [AuthenticateAwaitsPubkey p]\<rparr>))"

text \<open>
  The continuation, once \<^verbatim>\<open>getPublicKey\<close> has settled: a rejection is rethrown; otherwise
  the executor of the promise sets the timer, creates the socket and installs the four
  handlers. When the constructor throws, the timer is cleared and the promise rejected.
\<close>

definition authenticate_resume :: "nat \<Rightarrow> error + string \<Rightarrow> world \<Rightarrow> world" where
  "authenticate_resume p res w =
     (case res of
        Inl e \<Rightarrow> settle p (Rejected e) w
      | Inr pk \<Rightarrow>
          (let (t, w1) = setTimeout (RejectAuthTimeout p) w in
           if url_ok w1 then
             w1\<lparr>relay := Some (length (sockets w1)),
                sockets := sockets w1 @
                  [\<lparr>url = relayUrl w1, readyState = CONNECTING, onopen = True,
                    onmessage = Some (AuthOnMessage pk t p), onerror = Some (t, p),
                    onclose = True, sent = []\<rparr>]\<rparr>
           else settle p (Rejected SyntaxError) (clearTimeout t w1)))"

text \<open>
  \<^verbatim>\<open>onopen\<close>: sends the trigger request on \<^verbatim>\<open>this.relay\<close>; an exception of \<^verbatim>\<open>send\<close> leaves the
  handler and changes nothing.
\<close>

definition auth_onopen :: "world \<Rightarrow> world" where
  "auth_onopen w =
     (case relay_send (REQ ''auth_trigger'' [(''kinds'', JArr [JNum 1]), (''limit'', JNum 1)]) w of
        Inl _ \<Rightarrow> w
      | Inr w' \<Rightarrow> w')"

definition auth_onerror :: "nat \<Rightarrow> nat \<Rightarrow> world \<Rightarrow> world" where
  "auth_onerror t p w = settle p (Rejected TransportError) (clearTimeout t w)"

definition auth_onclose :: "world \<Rightarrow> world" where
  "auth_onclose w = w\<lparr>isAuthenticated := False\<rparr>"

text \<open>The object literal \<^verbatim>\<open>authEvent\<close>.\<close>

definition authEvent :: "string \<Rightarrow> jsval \<Rightarrow> string \<Rightarrow> int \<Rightarrow> jsval unsigned_event" where
  "authEvent u challenge pk clock =
     \<lparr>kind = 22242, created_at = clock div 1000,
      tags = [[JStr ''relay'', JStr u], [JStr ''challenge'', challenge]],
      content = [], pubkey = pk\<rparr>"

text \<open>
  The handshake handler, up to its \<^verbatim>\<open>await\<close>. Everything is inside \<^verbatim>\<open>try\<close>, and the
  \<^verbatim>\<open>catch\<close> only logs: an exception ends the handler with the state reached so far.
  The branches are tried in the order of the source; the \<^verbatim>\<open>CLOSED\<close> branch only logs.
  Two log lines interpolate a part of the message into a template literal, which can
  throw: the challenge after it has been stored, and \<^verbatim>\<open>message[3] || 'Unknown error'\<close>
  before a rejection is examined.
\<close>

definition auth_onmessage :: "string \<Rightarrow> nat \<Rightarrow> nat \<Rightarrow> payload \<Rightarrow> world \<Rightarrow> world" where
  "auth_onmessage pk t p data w =
     (case data of
        None \<Rightarrow> w
      | Some message \<Rightarrow>
          if js_nullish message then w
          else if js_get message 0 = JStr ''AUTH'' then
            (let w1 = w\<lparr>authChallenge := js_get message 1\<rparr> in
             case js_toString (authChallenge w1) of
               None \<Rightarrow> w1
             | Some _ \<Rightarrow>
                 (let ev = authEvent (relayUrl w1) (authChallenge w1) pk (now w1) in
                  if nostr w1 then w1\<lparr>awaiting := awaiting w1 @ [OnMessageAwaitsSign ev]\<rparr>
                  else w1))
          else if js_get message 0 = JStr ''OK'' \<and> js_get message 2 = JBool True then
            (case js_length (js_get message 1) of
               None \<Rightarrow> w
             | Some n \<Rightarrow>
                 if n = JNum 64 then
                   settle p (Resolved (JBool True)) (clearTimeout t (w\<lparr>isAuthenticated := True\<rparr>))
                 else w)
          else if js_get message 0 = JStr ''CLOSED'' then w
          else if js_get message 0 = JStr ''OK'' \<and> js_get message 2 = JBool False then
            (case js_toString (if js_truthy (js_get message 3) then js_get message 3
                               else JStr ''Unknown error'') of
               None \<Rightarrow> w
             | Some _ \<Rightarrow>
                 if js_truthy (js_get message 3) then
                   (case js_includes (js_get message 3) ''auth-required'' of
                      None \<Rightarrow> w
                    | Some b \<Rightarrow>
                        if b then settle p (Rejected AuthenticationFailed) (clearTimeout t w)
                        else w)
                 else w)
          else w)"

text \<open>
  The rest of the \<^verbatim>\<open>AUTH\<close> branch, once \<^verbatim>\<open>signEvent\<close> has settled: the signed event goes out
  on \<^verbatim>\<open>this.relay\<close>. A rejection of the signer and an exception of \<^verbatim>\<open>send\<close> are caught and
  logged.
\<close>

definition auth_onmessage_resume :: "error + NostrEvent \<Rightarrow> world \<Rightarrow> world" where
  "auth_onmessage_resume res w =
     (case res of
        Inl _ \<Rightarrow> w
      | Inr signedAuthEvent \<Rightarrow>
          (case relay_send (AUTH signedAuthEvent) w of Inl _ \<Rightarrow> w | Inr w' \<Rightarrow> w'))"

subsection \<open>\<^verbatim>\<open>publishKind30078Event\<close>\<close>

text \<open>The object literal \<^verbatim>\<open>event\<close> of \<^verbatim>\<open>publishKind30078Event\<close>.\<close>

definition kind30078Event ::
  "string \<Rightarrow> string \<Rightarrow> string list list \<Rightarrow> string \<Rightarrow> int \<Rightarrow> string unsigned_event" where
  "kind30078Event c dTag additionalTags pk clock =
     \<lparr>kind = 30078, created_at = clock div 1000,
      tags = [''d'', dTag] # additionalTags,
      content = c, pubkey = pk\<rparr>"

text \<open>
  The call, up to its first \<^verbatim>\<open>await\<close> on the signer: the guard throws (the returned
  promise is rejected), \<^verbatim>\<open>getNip07Signer\<close> throws, or \<^verbatim>\<open>getPublicKey\<close> is called.
\<close>

definition publishKind30078Event ::
  "string \<Rightarrow> string \<Rightarrow> string list list \<Rightarrow> world \<Rightarrow> nat \<times> world" where
  "publishKind30078Event c dTag additionalTags w0 =
     (let p = length (promises w0);
          w = w0\<lparr>promises := promises w0 @ [Pending]\<rparr>
      in if \<not> isAuthenticated w \<or> relay w = None then (p, settle p (Rejected NotAuthenticated) w)
         else (case getNip07Signer w of
                 Inl e \<Rightarrow> (p, settle p (Rejected e) w)
               | Inr _ \<Rightarrow>
                   (p, w\<lparr>awaiting := awaiting w @ [PublishAwaitsPubkey p c dTag additionalTags]\<rparr>)))"

text \<open>
  Once \<^verbatim>\<open>getPublicKey\<close> has settled: the event is built and handed to \<^verbatim>\<open>signEvent\<close>, which
  reads \<^verbatim>\<open>window.nostr\<close> again (a TypeError when it has gone). Every exception is logged
  and rethrown.
\<close>

definition publish_resume_pubkey ::
  "nat \<Rightarrow> string \<Rightarrow> string \<Rightarrow> string list list \<Rightarrow> error + string \<Rightarrow> world \<Rightarrow> world" where
  "publish_resume_pubkey p c dTag additionalTags res w =
     (case res of
        Inl e \<Rightarrow> settle p (Rejected e) w
      | Inr pk \<Rightarrow>
          (let ev = kind30078Event c dTag additionalTags pk (now w) in
           if nostr w then w\<lparr>awaiting := awaiting w @ [PublishAwaitsSign p ev]\<rparr>
           else settle p (Rejected TypeError) w))"

text \<open>\<^verbatim>\<open>this.relay!.onmessage = h\<close>: a TypeError when \<^verbatim>\<open>this.relay\<close> is \<open>null\<close>.\<close>

definition set_onmessage :: "handler option \<Rightarrow> world \<Rightarrow> error + world" where
  "set_onmessage h w =
     (case relay w of
        None \<Rightarrow> Inl TypeError
      | Some r \<Rightarrow> Inr (w\<lparr>sockets := modify r (\<lambda>s. s\<lparr>onmessage := h\<rparr>) (sockets w)\<rparr>))"

text \<open>
  Once \<^verbatim>\<open>signEvent\<close> has settled, the executor of the promise: the timer, the handler
  wrapped around the current \<^verbatim>\<open>onmessage\<close> of \<^verbatim>\<open>this.relay\<close>, the \<^verbatim>\<open>EVENT\<close> message. An
  exception inside the executor rejects the promise.
\<close>

definition publish_resume_signed :: "nat \<Rightarrow> error + NostrEvent \<Rightarrow> world \<Rightarrow> world" where
  "publish_resume_signed p res w =
     (case res of
        Inl e \<Rightarrow> settle p (Rejected e) w
      | Inr signedEvent \<Rightarrow>
          (let (t, w1) = setTimeout (RejectPublishTimeout p) w in
           case relay w1 of
             None \<Rightarrow> settle p (Rejected TypeError) w1
           | Some r \<Rightarrow>
               (let originalOnMessage =
                      (if r < length (sockets w1) then onmessage (sockets w1 ! r) else None)
                in case set_onmessage (Some (PublishOnMessage originalOnMessage signedEvent t p)) w1 of
                     Inl e \<Rightarrow> settle p (Rejected e) w1
                   | Inr w2 \<Rightarrow>
                       (case relay_send (EVENT signedEvent) w2 of
                          Inl e \<Rightarrow> settle p (Rejected e) w2
                        | Inr w3 \<Rightarrow> w3))))"

text \<open>
  The handler of a publish, after the call of the original handler. Inside \<^verbatim>\<open>try\<close>:
  a message \<^verbatim>\<open>OK\<close> for the identifier of the signed event clears the timer, settles the
  promise and puts the original handler back on \<^verbatim>\<open>this.relay\<close>; an exception (of the
  template literal, of the assignment on a \<open>null\<close> relay) ends the handler there.
\<close>

definition publish_onmessage ::
  "handler option \<Rightarrow> NostrEvent \<Rightarrow> nat \<Rightarrow> nat \<Rightarrow> payload \<Rightarrow> world \<Rightarrow> world" where
  "publish_onmessage originalOnMessage signedEvent t p data w =
     (case data of
        None \<Rightarrow> w
      | Some message \<Rightarrow>
          if js_nullish message then w
          else if js_get message 0 = JStr ''OK''
                  \<and> js_get message 1 = JStr (event_id signedEvent) then
            (let w1 = clearTimeout t w;
                 restore = (\<lambda>w'. case set_onmessage originalOnMessage w' of
                                   Inl _ \<Rightarrow> w' | Inr w'' \<Rightarrow> w'')
             in if js_get message 2 = JBool True then
                  restore (settle p (Resolved (JStr (event_id signedEvent))) w1)
                else
                  (case js_toString (if js_truthy (js_get message 3) then js_get message 3
                                     else JStr ''Unknown error'') of
                     None \<Rightarrow> w1
                   | Some m \<Rightarrow> restore (settle p (Rejected (PublishFailed m)) w1)))
          else w)"

text \<open>
  Calling a handler with a message event. The handler of a publish calls
  \<^verbatim>\<open>originalOnMessage\<close> first, when there is one, then runs its own part.
\<close>

fun on_message :: "handler \<Rightarrow> payload \<Rightarrow> world \<Rightarrow> world" where
  "on_message (AuthOnMessage pk t p) data w = auth_onmessage pk t p data w"
| "on_message (PublishOnMessage None signedEvent t p) data w =
     publish_onmessage None signedEvent t p data w"
| "on_message (PublishOnMessage (Some h) signedEvent t p) data w =
     publish_onmessage (Some h) signedEvent t p data (on_message h data w)"

subsection \<open>\<^verbatim>\<open>disconnect\<close>\<close>



subsection \<open>What the host does\<close>

text \<open>
  The events of a socket, as the host dispatches them to the handlers the socket holds
  at that moment: \<^verbatim>\<open>open\<close> (once, from connecting), \<^verbatim>\<open>message\<close> (while open), \<^verbatim>\<open>error\<close>,
  \<^verbatim>\<open>close\<close>.
\<close>

definition socket_opens :: "nat \<Rightarrow> world \<Rightarrow> world" where
  "socket_opens r w =
     (if r < length (sockets w) \<and> readyState (sockets w ! r) = CONNECTING then
        (let w1 = w\<lparr>sockets := modify r (\<lambda>s. s\<lparr>readyState := OPEN\<rparr>) (sockets w)\<rparr>
         in if onopen (sockets w ! r) then auth_onopen w1 else w1)
      else w)"

definition socket_message :: "nat \<Rightarrow> payload \<Rightarrow> world \<Rightarrow> world" where
  "socket_message r data w =
     (if r < length (sockets w) \<and> readyState (sockets w ! r) = OPEN then
        (case onmessage (sockets w ! r) of None \<Rightarrow> w | Some h \<Rightarrow> on_message h data w)
      else w)"

definition socket_error :: "nat \<Rightarrow> world \<Rightarrow> world" where
  "socket_error r w =
     (if r < length (sockets w) then
        (case onerror (sockets w ! r) of None \<Rightarrow> w | Some (t, p) \<Rightarrow> auth_onerror t p w)
      else w)"

definition socket_closes :: "nat \<Rightarrow> world \<Rightarrow> world" where
  "socket_closes r w =
     (if r < length (sockets w) \<and> readyState (sockets w ! r) \<noteq> CLOSED then
        (let w1 = w\<lparr>sockets := modify r (\<lambda>s. s\<lparr>readyState := CLOSED\<rparr>) (sockets w)\<rparr>
         in if onclose (sockets w ! r) then auth_onclose w1 else w1)
      else w)"

text \<open>
  The external signer settles the request of the \<open>k\<close>-th suspended function, which
  resumes (once). The interface \<^verbatim>\<open>NostrSigner\<close> excludes a result of the wrong type for the
  request; the model leaves such a function suspended.
\<close>

datatype signer_result = PublicKey string | Signed NostrEvent | Refused error

fun resume :: "continuation \<Rightarrow> signer_result \<Rightarrow> world \<Rightarrow> world" where
  "resume (AuthenticateAwaitsPubkey p) (PublicKey pk) w = authenticate_resume p (Inr pk) w"
| "resume (AuthenticateAwaitsPubkey p) (Refused e) w = authenticate_resume p (Inl e) w"
| "resume (OnMessageAwaitsSign ev) (Signed s) w = auth_onmessage_resume (Inr s) w"
| "resume (OnMessageAwaitsSign ev) (Refused e) w = auth_onmessage_resume (Inl e) w"
| "resume (PublishAwaitsPubkey p c dTag additionalTags) (PublicKey pk) w =
     publish_resume_pubkey p c dTag additionalTags (Inr pk) w"
| "resume (PublishAwaitsPubkey p c dTag additionalTags) (Refused e) w =
     publish_resume_pubkey p c dTag additionalTags (Inl e) w"
| "resume (PublishAwaitsSign p ev) (Signed s) w = publish_resume_signed p (Inr s) w"
| "resume (PublishAwaitsSign p ev) (Refused e) w = publish_resume_signed p (Inl e) w"
| "resume _ _ w = w"

definition signer_settles :: "nat \<Rightarrow> signer_result \<Rightarrow> world \<Rightarrow> world" where
  "signer_settles k res w =
     (if k < length (awaiting w) then
        resume (awaiting w ! k) res (w\<lparr>awaiting := (awaiting w)[k := Resumed]\<rparr>)
      else w)"

section \<open>The pool service: \<^verbatim>\<open>src/lib/nostr-auth.ts\<close>\<close>

text \<open>
  The older class of the same name talks to a relay object of the nostr-tools library,
  obtained from \<^verbatim>\<open>pool.ensureRelay\<close>. The library is outside the repository; the model
  takes from it what the class relies on: \<^verbatim>\<open>relay.on(type, f)\<close> adds the listener \<open>f\<close>,
  an \<^verbatim>\<open>auth\<close> or \<^verbatim>\<open>ok\<close> event calls the listeners of its type in the order they were
  added, \<^verbatim>\<open>relay.send\<close> transmits, \<^verbatim>\<open>relay.close\<close> and \<^verbatim>\<open>pool.close\<close> close.

  The listeners are closures: the \<^verbatim>\<open>auth\<close> listener of \<^verbatim>\<open>authenticate\<close> (the public key, its
  timer, its promise), the \<^verbatim>\<open>ok\<close> listener it adds after sending the proof (timer,
  promise), and the \<^verbatim>\<open>ok\<close> listener of one publish (\<^verbatim>\<open>signedEvent\<close>, timer, promise).
\<close>

datatype auth_listener = AuthListener string nat nat

datatype ok_listener =
    AuthOkListener nat nat
  | PublishOkListener NostrEvent nat nat

record pool_relay =
  auth_listeners :: "auth_listener list"
  ok_listeners :: "ok_listener list"
  transmitted :: "outmsg list"
  closed :: bool

datatype pool_continuation =
    PoolAuthenticateAwaitsPubkey nat
  | PoolAuthenticateAwaitsRelay nat string
  | PoolAuthAwaitsSign "jsval unsigned_event" nat nat
  | PoolPublishAwaitsPubkey nat string string "string list list"
  | PoolPublishAwaitsSign nat "string unsigned_event"
  | PoolResumed

record pool_world = service +
  relays :: "pool_relay list"
  pool_awaiting :: "pool_continuation list"

definition pool_new_service :: "string \<Rightarrow> int option \<Rightarrow> bool \<Rightarrow> int \<Rightarrow> pool_world" where
  "pool_new_service u tmo ext clock =
     \<lparr>relay = None, isAuthenticated = False, relayUrl = u, timeout = tmo,
      nostr = ext, now = clock, promises = [], timers = [],
      relays = [], pool_awaiting = []\<rparr>"

text \<open>\<^verbatim>\<open>this.relay.send(m)\<close> and \<^verbatim>\<open>this.relay.on('ok', f)\<close>: a TypeError on a \<open>null\<close> relay.\<close>

definition pool_send :: "outmsg \<Rightarrow> pool_world \<Rightarrow> error + pool_world" where
  "pool_send m w =
     (case relay w of
        None \<Rightarrow> Inl TypeError
      | Some r \<Rightarrow> Inr (w\<lparr>relays := modify r (\<lambda>c. c\<lparr>transmitted := transmitted c @ [m]\<rparr>) (relays w)\<rparr>))"

definition pool_on_ok :: "ok_listener \<Rightarrow> pool_world \<Rightarrow> error + pool_world" where
  "pool_on_ok f w =
     (case relay w of
        None \<Rightarrow> Inl TypeError
      | Some r \<Rightarrow> Inr (w\<lparr>relays := modify r (\<lambda>c. c\<lparr>ok_listeners := ok_listeners c @ [f]\<rparr>) (relays w)\<rparr>))"

definition pool_on_auth :: "auth_listener \<Rightarrow> pool_world \<Rightarrow> error + pool_world" where
  "pool_on_auth f w =
     (case relay w of
        None \<Rightarrow> Inl TypeError
      | Some r \<Rightarrow> Inr (w\<lparr>relays := modify r (\<lambda>c. c\<lparr>auth_listeners := auth_listeners c @ [f]\<rparr>) (relays w)\<rparr>))"

subsection \<open>\<^verbatim>\<open>authenticate\<close>\<close>

definition pool_authenticate :: "pool_world \<Rightarrow> nat \<times> pool_world" where
  "pool_authenticate w0 =
     (let p = length (promises w0);
          w = w0\<lparr>promises := promises w0 @ [Pending]\<rparr>
      in case getNip07Signer w of
           Inl e \<Rightarrow> (p, settle p (Rejected e) w)
         | Inr _ \<Rightarrow> (p, w\<lparr>pool_awaiting := pool_awaiting w @ [PoolAuthenticateAwaitsPubkey p]\<rparr>))"

text \<open>Once \<^verbatim>\<open>getPublicKey\<close> has settled: \<^verbatim>\<open>await this.pool.ensureRelay(url)\<close>.\<close>

definition pool_authenticate_pubkey :: "nat \<Rightarrow> error + string \<Rightarrow> pool_world \<Rightarrow> pool_world" where
  "pool_authenticate_pubkey p res w =
     (case res of
        Inl e \<Rightarrow> settle p (Rejected e) w
      | Inr pk \<Rightarrow> w\<lparr>pool_awaiting := pool_awaiting w @ [PoolAuthenticateAwaitsRelay p pk]\<rparr>)"

text \<open>
  Once \<^verbatim>\<open>ensureRelay\<close> has settled, with a relay object of the store: the relay is kept,
  the timer set, the \<^verbatim>\<open>auth\<close> listener added and the trigger request sent.
\<close>

definition pool_authenticate_relay ::
  "nat \<Rightarrow> string \<Rightarrow> error + nat \<Rightarrow> pool_world \<Rightarrow> pool_world" where
  "pool_authenticate_relay p pk res w =
     (case res of
        Inl e \<Rightarrow> settle p (Rejected e) w
      | Inr r \<Rightarrow>
          (let w1 = w\<lparr>relay := Some r\<rparr>;
               (t, w2) = setTimeout (RejectAuthTimeout p) w1
           in case pool_on_auth (AuthListener pk t p) w2 of
                Inl e \<Rightarrow> settle p (Rejected e) w2
              | Inr w3 \<Rightarrow>
                  (case pool_send (REQ ''auth-trigger'' [(''limit'', JNum 1)]) w3 of
                     Inl e \<Rightarrow> settle p (Rejected e) w3
                   | Inr w4 \<Rightarrow> w4)))"

text \<open>
  The \<^verbatim>\<open>auth\<close> listener, up to its \<^verbatim>\<open>await\<close>: it builds the same \<^verbatim>\<open>authEvent\<close> from the
  challenge it is called with. Its \<^verbatim>\<open>catch\<close> clears the timer and rejects the promise.
\<close>

definition pool_auth_listener :: "string \<Rightarrow> nat \<Rightarrow> nat \<Rightarrow> string \<Rightarrow> pool_world \<Rightarrow> pool_world" where
  "pool_auth_listener pk t p challenge w =
     (let ev = authEvent (relayUrl w) (JStr challenge) pk (now w) in
      if nostr w then w\<lparr>pool_awaiting := pool_awaiting w @ [PoolAuthAwaitsSign ev t p]\<rparr>
      else settle p (Rejected TypeError) (clearTimeout t w))"

text \<open>Once \<^verbatim>\<open>signEvent\<close> has settled: the proof is sent and the \<^verbatim>\<open>ok\<close> listener added.\<close>

definition pool_auth_listener_resume ::
  "nat \<Rightarrow> nat \<Rightarrow> error + NostrEvent \<Rightarrow> pool_world \<Rightarrow> pool_world" where
  "pool_auth_listener_resume t p res w =
     (case res of
        Inl e \<Rightarrow> settle p (Rejected e) (clearTimeout t w)
      | Inr signedAuthEvent \<Rightarrow>
          (case pool_send (AUTH signedAuthEvent) w of
             Inl e \<Rightarrow> settle p (Rejected e) (clearTimeout t w)
           | Inr w1 \<Rightarrow>
               (case pool_on_ok (AuthOkListener t p) w1 of
                  Inl e \<Rightarrow> settle p (Rejected e) (clearTimeout t w1)
                | Inr w2 \<Rightarrow> w2)))"

text \<open>
  The \<^verbatim>\<open>ok\<close> listener of the handshake,
  \<^verbatim>\<open>(eventId, success, message) => { if (success) ... else ... }\<close>: it never reads \<^verbatim>\<open>eventId\<close>.
\<close>

definition pool_auth_ok :: "nat \<Rightarrow> nat \<Rightarrow> string \<Rightarrow> bool \<Rightarrow> string \<Rightarrow> pool_world \<Rightarrow> pool_world" where
  "pool_auth_ok t p eventId success message w =
     (if success then
        settle p (Resolved (JBool True)) (clearTimeout t (w\<lparr>isAuthenticated := True\<rparr>))
      else settle p (Rejected (Error (''Authentication failed: '' @ message))) (clearTimeout t w))"

subsection \<open>\<^verbatim>\<open>publishKind30078Event\<close>\<close>

definition pool_publishKind30078Event ::
  "string \<Rightarrow> string \<Rightarrow> string list list \<Rightarrow> pool_world \<Rightarrow> nat \<times> pool_world" where
  "pool_publishKind30078Event c dTag additionalTags w0 =
     (let p = length (promises w0);
          w = w0\<lparr>promises := promises w0 @ [Pending]\<rparr>
      in if \<not> isAuthenticated w \<or> relay w = None then (p, settle p (Rejected NotAuthenticated) w)
         else (case getNip07Signer w of
                 Inl e \<Rightarrow> (p, settle p (Rejected e) w)
               | Inr _ \<Rightarrow>
                   (p, w\<lparr>pool_awaiting :=
                          pool_awaiting w @ [PoolPublishAwaitsPubkey p c dTag additionalTags]\<rparr>)))"

definition pool_publish_pubkey ::
  "nat \<Rightarrow> string \<Rightarrow> string \<Rightarrow> string list list \<Rightarrow> error + string \<Rightarrow> pool_world \<Rightarrow> pool_world" where
  "pool_publish_pubkey p c dTag additionalTags res w =
     (case res of
        Inl e \<Rightarrow> settle p (Rejected e) w
      | Inr pk \<Rightarrow>
          (let ev = kind30078Event c dTag additionalTags pk (now w) in
           if nostr w then w\<lparr>pool_awaiting := pool_awaiting w @ [PoolPublishAwaitsSign p ev]\<rparr>
           else settle p (Rejected TypeError) w))"

definition pool_publish_signed :: "nat \<Rightarrow> error + NostrEvent \<Rightarrow> pool_world \<Rightarrow> pool_world" where
  "pool_publish_signed p res w =
     (case res of
        Inl e \<Rightarrow> settle p (Rejected e) w
      | Inr signedEvent \<Rightarrow>
          (let (t, w1) = setTimeout (RejectPublishTimeout p) w in
           case pool_on_ok (PublishOkListener signedEvent t p) w1 of
             Inl e \<Rightarrow> settle p (Rejected e) w1
           | Inr w2 \<Rightarrow>
               (case pool_send (EVENT signedEvent) w2 of
                  Inl e \<Rightarrow> settle p (Rejected e) w2
                | Inr w3 \<Rightarrow> w3)))"

text \<open>The \<^verbatim>\<open>ok\<close> listener of a publish: only an event for its identifier concerns it.\<close>

definition pool_publish_ok ::
  "NostrEvent \<Rightarrow> nat \<Rightarrow> nat \<Rightarrow> string \<Rightarrow> bool \<Rightarrow> string \<Rightarrow> pool_world \<Rightarrow> pool_world" where
  "pool_publish_ok signedEvent t p eventId success message w =
     (if eventId = event_id signedEvent then
        (if success then settle p (Resolved (JStr eventId)) (clearTimeout t w)
         else settle p (Rejected (PublishFailed message)) (clearTimeout t w))
      else w)"

subsection \<open>\<^verbatim>\<open>disconnect\<close>\<close>


subsection \<open>What the library does\<close>

definition run_ok_listener ::
  "string \<Rightarrow> bool \<Rightarrow> string \<Rightarrow> ok_listener \<Rightarrow> pool_world \<Rightarrow> pool_world" where
  "run_ok_listener eventId success message f w =
     (case f of
        AuthOkListener t p \<Rightarrow> pool_auth_ok t p eventId success message w
      | PublishOkListener signedEvent t p \<Rightarrow>
          pool_publish_ok signedEvent t p eventId success message w)"

text \<open>An \<^verbatim>\<open>ok\<close> event of a relay calls the listeners it has at that moment, in order.\<close>

definition relay_ok :: "nat \<Rightarrow> string \<Rightarrow> bool \<Rightarrow> string \<Rightarrow> pool_world \<Rightarrow> pool_world" where
  "relay_ok r eventId success message w =
     (if r < length (relays w) then
        fold (run_ok_listener eventId success message) (ok_listeners (relays w ! r)) w
      else w)"

definition relay_auth :: "nat \<Rightarrow> string \<Rightarrow> pool_world \<Rightarrow> pool_world" where
  "relay_auth r challenge w =
     (if r < length (relays w) then
        fold (\<lambda>f. case f of AuthListener pk t p \<Rightarrow> pool_auth_listener pk t p challenge)
          (auth_listeners (relays w ! r)) w
      else w)"

text \<open>
  \<^verbatim>\<open>ensureRelay\<close> resolves with a relay object: a new one, or one the pool holds already.
\<close>

definition pool_fresh_relay :: "pool_world \<Rightarrow> nat \<times> pool_world" where
  "pool_fresh_relay w =
     (length (relays w),
      w\<lparr>relays := relays w @
          [\<lparr>auth_listeners = [], ok_listeners = [], transmitted = [], closed = False\<rparr>]\<rparr>)"

datatype pool_result =
    PoolPublicKey string
  | PoolSigned NostrEvent
  | PoolRelay nat
  | PoolRefused error

fun pool_resume :: "pool_continuation \<Rightarrow> pool_result \<Rightarrow> pool_world \<Rightarrow> pool_world" where
  "pool_resume (PoolAuthenticateAwaitsPubkey p) (PoolPublicKey pk) w =
     pool_authenticate_pubkey p (Inr pk) w"
| "pool_resume (PoolAuthenticateAwaitsPubkey p) (PoolRefused e) w =
     pool_authenticate_pubkey p (Inl e) w"
| "pool_resume (PoolAuthenticateAwaitsRelay p pk) (PoolRelay r) w =
     pool_authenticate_relay p pk (Inr r) w"
| "pool_resume (PoolAuthenticateAwaitsRelay p pk) (PoolRefused e) w =
     pool_authenticate_relay p pk (Inl e) w"
| "pool_resume (PoolAuthAwaitsSign ev t p) (PoolSigned s) w =
     pool_auth_listener_resume t p (Inr s) w"
| "pool_resume (PoolAuthAwaitsSign ev t p) (PoolRefused e) w =
     pool_auth_listener_resume t p (Inl e) w"
| "pool_resume (PoolPublishAwaitsPubkey p c dTag additionalTags) (PoolPublicKey pk) w =
     pool_publish_pubkey p c dTag additionalTags (Inr pk) w"
| "pool_resume (PoolPublishAwaitsPubkey p c dTag additionalTags) (PoolRefused e) w =
     pool_publish_pubkey p c dTag additionalTags (Inl e) w"
| "pool_resume (PoolPublishAwaitsSign p ev) (PoolSigned s) w = pool_publish_signed p (Inr s) w"
| "pool_resume (PoolPublishAwaitsSign p ev) (PoolRefused e) w = pool_publish_signed p (Inl e) w"
| "pool_resume _ _ w = w"

definition pool_settles :: "nat \<Rightarrow> pool_result \<Rightarrow> pool_world \<Rightarrow> pool_world" where
  "pool_settles k res w =
     (if k < length (pool_awaiting w) then
        pool_resume (pool_awaiting w ! k) res (w\<lparr>pool_awaiting := (pool_awaiting w)[k := PoolResumed]\<rparr>)
      else w)"

section \<open>A session, step by step\<close>

text \<open>
  One run of the WebSocket service, used to evaluate the definitions on concrete
  states: a new service in a host with a signer; \<^verbatim>\<open>authenticate()\<close>, the public key, the
  socket opens; the relay sends the challenge \<^verbatim>\<open>c1\<close>, the signer returns the proof, which
  goes out; the relay accepts; \<^verbatim>\<open>publishKind30078Event\<close> once, and a second time while the
  first is in flight.
\<close>

definition proof_id :: string where
  "proof_id = replicate 64 CHR ''a''"

definition other_id :: string where
  "other_id = replicate 64 CHR ''b''"

definition signedProof :: NostrEvent where
  "signedProof =
     \<lparr>kind = 22242, created_at = 1700000000,
      tags = [[''relay'', ''ws://localhost:3334''], [''challenge'', ''c1'']],
      content = [], pubkey = ''pk'', event_id = proof_id, sig = ''sig0''\<rparr>"

definition note1 :: NostrEvent where
  "note1 =
     \<lparr>kind = 30078, created_at = 1700000000,
      tags = [[''d'', ''note-1''], [''t'', ''demo'']],
      content = ''hello'', pubkey = ''pk'', event_id = ''e1'', sig = ''sig1''\<rparr>"

definition note2 :: NostrEvent where
  "note2 =
     \<lparr>kind = 30078, created_at = 1700000000,
      tags = [[''d'', ''note-2'']],
      content = ''again'', pubkey = ''pk'', event_id = ''e2'', sig = ''sig2''\<rparr>"

definition ok_message :: "string \<Rightarrow> bool \<Rightarrow> string \<Rightarrow> payload" where
  "ok_message i success reason = Some (JArr [JStr ''OK'', JStr i, JBool success, JStr reason])"

definition session_start :: world where
  "session_start = new_service ''ws://localhost:3334'' None True True 1700000000123"

definition session_connected :: world where
  "session_connected =
     socket_opens 0 (signer_settles 0 (PublicKey ''pk'') (snd (authenticate session_start)))"

definition session_proof_sent :: world where
  "session_proof_sent =
     signer_settles 1 (Signed signedProof)
       (socket_message 0 (Some (JArr [JStr ''AUTH'', JStr ''c1''])) session_connected)"

definition session_authenticated :: world where
  "session_authenticated = socket_message 0 (ok_message proof_id True []) session_proof_sent"

definition session_publishing :: world where
  "session_publishing =
     signer_settles 3 (Signed note1)
       (signer_settles 2 (PublicKey ''pk'')
          (snd (publishKind30078Event ''hello'' ''note-1'' [[''t'', ''demo'']]
                  session_authenticated)))"

definition session_publishing_twice :: world where
  "session_publishing_twice =
     signer_settles 5 (Signed note2)
       (signer_settles 4 (PublicKey ''pk'')
          (snd (publishKind30078Event ''again'' ''note-2'' [] session_publishing)))"

text \<open>
  The entries of a tag list that are distinguishing tags: those whose first element is
  \<^verbatim>\<open>d\<close>.
\<close>

definition dTag_entries :: "string list list \<Rightarrow> string list list" where
  "dTag_entries ts = filter (\<lambda>tag. take 1 tag = [''d'']) ts"

text \<open>A pool service that holds a relay, before and after its handshake.\<close>

definition pool_connected :: pool_world where
  "pool_connected =
     (let w1 = snd (pool_authenticate (pool_new_service ''ws://localhost:3334'' None True 1700000000123));
          w2 = pool_settles 0 (PoolPublicKey ''pk'') w1;
          (r, w3) = pool_fresh_relay w2
      in pool_settles 1 (PoolRelay r) w3)"

definition pool_authenticated :: pool_world where
  "pool_authenticated =
     relay_ok 0 proof_id True []
       (pool_settles 2 (PoolSigned signedProof) (relay_auth 0 ''c1'' pool_connected))"

definition pool_publishing :: pool_world where
  "pool_publishing =
     pool_settles 4 (PoolSigned note1)
       (pool_settles 3 (PoolPublicKey ''pk'')
          (snd (pool_publishKind30078Event ''hello'' ''note-1'' [[''t'', ''demo'']]
                  pool_authenticated)))"

text \<open>
  Runs in which \<^verbatim>\<open>authenticate()\<close> does not succeed: the timer fires on the connected session
  before any challenge, and then the relay sends an \<^verbatim>\<open>OK\<close> all the same and the caller
  publishes; or the caller calls \<^verbatim>\<open>authenticate()\<close> again, which opens a second socket.
\<close>

definition session_timed_out :: world where
  "session_timed_out = timer_fires 0 session_connected"

definition session_late_ok :: world where
  "session_late_ok = socket_message 0 (ok_message other_id True []) session_timed_out"

definition session_late_publish :: world where
  "session_late_publish =
     signer_settles 2 (Signed note1)
       (signer_settles 1 (PublicKey ''pk'')
          (snd (publishKind30078Event ''hello'' ''note-1'' [[''t'', ''demo'']] session_late_ok)))"

definition session_retry :: world where
  "session_retry =
     socket_opens 1 (signer_settles 1 (PublicKey ''pk'') (snd (authenticate session_timed_out)))"

text \<open>
  Runs with a proof that is overtaken: a second challenge arrives while the signer still
  works on the first; a challenge arrives on the first socket after the retry.
\<close>

definition session_two_challenges :: world where
  "session_two_challenges =
     socket_message 0 (Some (JArr [JStr ''AUTH'', JStr ''c2'']))
       (socket_message 0 (Some (JArr [JStr ''AUTH'', JStr ''c1''])) session_connected)"

definition session_stale_proof :: world where
  "session_stale_proof = signer_settles 1 (Signed signedProof) session_two_challenges"

definition session_crossed_proof :: world where
  "session_crossed_proof =
     signer_settles 2 (Signed signedProof)
       (socket_message 0 (Some (JArr [JStr ''AUTH'', JStr ''c1''])) session_retry)"

text \<open>
  The contract of the external signer, \<^verbatim>\<open>signEvent(event): Promise<NostrEvent>\<close>: the event
  it returns has the fields of the record it was given (and an identifier and a
  signature). The services do not check it.
\<close>

definition signed_from :: "jsval unsigned_event \<Rightarrow> NostrEvent \<Rightarrow> bool" where
  "signed_from ev se =
     (kind se = kind ev \<and> created_at se = created_at ev
      \<and> map (map JStr) (tags se) = tags ev
      \<and> content se = content ev \<and> pubkey se = pubkey ev)"

section \<open>Properties\<close>

subsection \<open>Auxiliary facts\<close>

lemmas scenario_defs =
  proof_id_def other_id_def signedProof_def note1_def note2_def ok_message_def
  session_start_def session_connected_def session_proof_sent_def session_authenticated_def
  session_publishing_def session_publishing_twice_def
  pool_connected_def pool_authenticated_def pool_publishing_def
  session_timed_out_def session_late_ok_def session_late_publish_def session_retry_def
  session_two_challenges_def session_stale_proof_def session_crossed_proof_def

lemma length_modify [simp]: "length (modify i f xs) = length xs"
  by (simp add: modify_def)

lemma nth_modify:
  "modify i f xs ! j = (if j = i \<and> i < length xs then f (xs ! j) else xs ! j)"
  by (simp add: modify_def)

text \<open>The handshake handler settles no promise but its own, and leaves the sockets.\<close>

lemma auth_onmessage_frame:
  "sockets (auth_onmessage pk t p data w) = sockets w"
  "relay (auth_onmessage pk t p data w) = relay w"
  "length (promises (auth_onmessage pk t p data w)) = length (promises w)"
  "q \<noteq> p \<Longrightarrow> promises (auth_onmessage pk t p data w) ! q = promises w ! q"
  by (auto simp add: auth_onmessage_def settle_def clearTimeout_def nth_modify Let_def
           split: option.splits)

text \<open>The handler of a publish resolves its pending promise on its own acceptance.\<close>

lemma publish_onmessage_own_ok:
  assumes "relay w = Some r" "p < length (promises w)" "promises w ! p = Pending"
  shows "promises (publish_onmessage orig se t p (ok_message (event_id se) True reason) w) ! p
           = Resolved (JStr (event_id se))"
  using assms
  by (simp add: publish_onmessage_def ok_message_def js_nullish_def js_get_def settle_def
        clearTimeout_def set_onmessage_def nth_modify Let_def)

text \<open>No handler changes a promise that has settled.\<close>

lemma publish_onmessage_keeps_settled:
  assumes "q < length (promises w)" "promises w ! q \<noteq> Pending"
  shows "promises (publish_onmessage orig se t p data w) ! q = promises w ! q"
  using assms
  by (auto simp add: publish_onmessage_def settle_def clearTimeout_def set_onmessage_def
        nth_modify Let_def split: option.splits)

lemma publish_onmessage_frame:
  "relay (publish_onmessage orig se t p data w) = relay w"
  "length (promises (publish_onmessage orig se t p data w)) = length (promises w)"
  by (auto simp add: publish_onmessage_def settle_def clearTimeout_def set_onmessage_def
        Let_def split: option.splits)

lemma on_message_unparseable: "data = None \<Longrightarrow> on_message h data w = w"
  by (induction h data w rule: on_message.induct)
     (simp_all add: auth_onmessage_def publish_onmessage_def)

text \<open>The flag is set by the acceptance branch of the handshake handler, and by nothing else.\<close>

lemma auth_onmessage_sets_flag:
  assumes "\<not> isAuthenticated w" "isAuthenticated (auth_onmessage pk t p data w)"
  shows "\<exists>m. data = Some m \<and> js_get m 0 = JStr ''OK'' \<and> js_get m 2 = JBool True
              \<and> js_length (js_get m 1) = Some (JNum 64)"
  using assms
  by (cases data)
     (auto simp add: auth_onmessage_def settle_def clearTimeout_def Let_def
           split: if_splits option.splits)

lemma publish_onmessage_flag:
  "isAuthenticated (publish_onmessage orig se t p data w) = isAuthenticated w"
  by (auto simp add: publish_onmessage_def settle_def clearTimeout_def set_onmessage_def
        Let_def split: option.splits)

lemma on_message_sets_flag:
  "\<not> isAuthenticated w \<Longrightarrow> isAuthenticated (on_message h data w) \<Longrightarrow>
     \<exists>m. data = Some m \<and> js_get m 0 = JStr ''OK'' \<and> js_get m 2 = JBool True
              \<and> js_length (js_get m 1) = Some (JNum 64)"
  by (induction h data w rule: on_message.induct)
     (auto simp add: publish_onmessage_flag dest: auth_onmessage_sets_flag)

subsection \<open>Messages that are not JSON\<close>

text \<open>
  C10. When the payload of an inbound message cannot be parsed as JSON, the handshake
  handler and the handler of a publish catch the error and return: no promise is
  settled and nothing of the state changes. This holds for every chain of installed
  handlers, and so for every message event the socket delivers.
\<close>

theorem unparseable_message_changes_nothing:
  "auth_onmessage pk t p None w = w
   \<and> publish_onmessage originalOnMessage signedEvent t' p' None w = w
   \<and> on_message h None w = w
   \<and> socket_message r None w = w"
  by (simp add: on_message_unparseable auth_onmessage_def publish_onmessage_def
        socket_message_def split: option.split)

theorem unparseable_message_changes_nothing_witness:
  "socket_message 0 None session_publishing_twice = session_publishing_twice
   \<and> on_message (PublishOnMessage (Some (AuthOnMessage ''pk'' 0 0)) note1 1 1) None
        session_publishing = session_publishing"
  using unparseable_message_changes_nothing
          [where h = "PublishOnMessage (Some (AuthOnMessage ''pk'' 0 0)) note1 1 1"
             and w = session_publishing and pk = "''pk''" and t = 0 and p = 0
             and originalOnMessage = None and signedEvent = note1 and t' = 1 and p' = 1
             and r = 0]
        unparseable_message_changes_nothing
          [where h = "AuthOnMessage ''pk'' 0 0"
             and w = session_publishing_twice and pk = "''pk''" and t = 0 and p = 0
             and originalOnMessage = None and signedEvent = note1 and t' = 1 and p' = 1
             and r = 0]
  by blast

subsection \<open>No signer\<close>

text \<open>
  C9. When the host has no signing capability (\<^verbatim>\<open>window.nostr\<close> is missing),
  \<^verbatim>\<open>authenticate()\<close> fails with the error of \<^verbatim>\<open>getNip07Signer\<close> before anything else happens:
  the returned promise is rejected, no socket is created and the state of the session is
  what it was.
\<close>

theorem authenticate_without_signer:
  "\<not> nostr w \<Longrightarrow>
     authenticate w =
       (length (promises w), w\<lparr>promises := promises w @ [Rejected SignerUnavailable]\<rparr>)"
  by (simp add: authenticate_def getNip07Signer_def settle_def modify_def Let_def nth_append)

theorem authenticate_without_signer_witness:
  "authenticate (new_service ''ws://localhost:3334'' None False True 0) =
     (0, \<lparr>relay = None, isAuthenticated = False, relayUrl = ''ws://localhost:3334'',
          timeout = None, nostr = False, now = 0,
          promises = [Rejected SignerUnavailable], timers = [],
          authChallenge = JNull, url_ok = True, sockets = [], awaiting = []\<rparr>)"
proof -
  have "\<not> nostr (new_service ''ws://localhost:3334'' None False True 0)"
    by (simp add: new_service_def)
  from authenticate_without_signer [OF this] show ?thesis
    by (simp add: new_service_def)
qed

subsection \<open>Publishing before authentication\<close>

text \<open>
  C5, as stated, fails: the first \<^verbatim>\<open>authenticate()\<close> of the session is rejected by its timer
  before any challenge has come, so that authentication has not succeeded and no proof
  was sent; the relay then sends an \<^verbatim>\<open>OK\<close> with a 64-character identifier, which the
  handshake handler, still installed, takes for the acceptance. A publish after that is
  not refused: its promise is pending and its \<^verbatim>\<open>EVENT\<close> message goes out.
\<close>

theorem publish_after_rejected_authenticate:
  "promises session_late_ok = [Rejected AuthenticationTimeout]
   \<and> sent (sockets session_late_ok ! 0)
       = [REQ ''auth_trigger'' [(''kinds'', JArr [JNum 1]), (''limit'', JNum 1)]]
   \<and> promises (snd (publishKind30078Event ''hello'' ''note-1'' [[''t'', ''demo'']]
                       session_late_ok)) ! 1 = Pending
   \<and> promises session_late_publish ! 1 = Pending
   \<and> sent (sockets session_late_publish ! 0)
       = [REQ ''auth_trigger'' [(''kinds'', JArr [JNum 1]), (''limit'', JNum 1)], EVENT note1]"
  unfolding scenario_defs by code_simp

text \<open>
  C5, amended. In every state in which the authentication flag is not set, whatever the
  configured URL and timeout, \<^verbatim>\<open>publishKind30078Event\<close> fails with the error
  \<^verbatim>\<open>Must authenticate first before publishing\<close>: the returned promise is rejected and
  nothing else changes, so nothing is asked of the signer and nothing is sent. Both
  services behave so. The flag is not the outcome of \<^verbatim>\<open>authenticate()\<close>: a message handler
  sets it exactly when it receives an \<^verbatim>\<open>OK\<close> message with the success flag \<open>true\<close> and an
  identifier of length 64, whether the promise of \<^verbatim>\<open>authenticate()\<close> is pending, resolved or
  rejected.
\<close>

theorem publish_before_authentication:
  "(\<not> isAuthenticated w \<longrightarrow>
      publishKind30078Event c dTag additionalTags w =
        (length (promises w), w\<lparr>promises := promises w @ [Rejected NotAuthenticated]\<rparr>)
      \<and> sockets (snd (publishKind30078Event c dTag additionalTags w)) = sockets w
      \<and> awaiting (snd (publishKind30078Event c dTag additionalTags w)) = awaiting w)
   \<and> (\<not> isAuthenticated v \<longrightarrow>
      pool_publishKind30078Event c dTag additionalTags v =
        (length (promises v), v\<lparr>promises := promises v @ [Rejected NotAuthenticated]\<rparr>)
      \<and> relays (snd (pool_publishKind30078Event c dTag additionalTags v)) = relays v
      \<and> pool_awaiting (snd (pool_publishKind30078Event c dTag additionalTags v))
            = pool_awaiting v)
   \<and> (\<not> isAuthenticated w \<and> isAuthenticated (on_message h data w) \<longrightarrow>
        (\<exists>m. data = Some m \<and> js_get m 0 = JStr ''OK'' \<and> js_get m 2 = JBool True
              \<and> js_length (js_get m 1) = Some (JNum 64)))
   \<and> (\<not> js_nullish message \<and> js_get message 0 = JStr ''OK'' \<and> js_get message 2 = JBool True
        \<and> js_length (js_get message 1) = Some (JNum 64)
       \<longrightarrow> isAuthenticated (auth_onmessage pk t p (Some message) w))"
proof (intro conjI impI)
  assume "\<not> isAuthenticated w \<and> isAuthenticated (on_message h data w)"
  then show "\<exists>m. data = Some m \<and> js_get m 0 = JStr ''OK'' \<and> js_get m 2 = JBool True
              \<and> js_length (js_get m 1) = Some (JNum 64)"
    by (blast dest: on_message_sets_flag)
next
  assume "\<not> js_nullish message \<and> js_get message 0 = JStr ''OK'' \<and> js_get message 2 = JBool True
        \<and> js_length (js_get message 1) = Some (JNum 64)"
  then show "isAuthenticated (auth_onmessage pk t p (Some message) w)"
    by (simp add: auth_onmessage_def settle_def clearTimeout_def)
qed (simp_all add: publishKind30078Event_def pool_publishKind30078Event_def settle_def
        modify_def Let_def nth_append)

theorem publish_before_authentication_witness:
  "snd (publishKind30078Event ''hello'' ''note-1'' [] session_connected) =
     session_connected\<lparr>promises := [Pending, Rejected NotAuthenticated]\<rparr>
   \<and> sent (sockets (snd (publishKind30078Event ''hello'' ''note-1'' [] session_connected)) ! 0)
       = [REQ ''auth_trigger'' [(''kinds'', JArr [JNum 1]), (''limit'', JNum 1)]]
   \<and> snd (pool_publishKind30078Event ''hello'' ''note-1'' [] pool_connected) =
       pool_connected\<lparr>promises := [Pending, Rejected NotAuthenticated]\<rparr>
   \<and> (\<exists>m. ok_message other_id True [] = Some m \<and> js_get m 0 = JStr ''OK''
          \<and> js_get m 2 = JBool True \<and> js_length (js_get m 1) = Some (JNum 64))
   \<and> isAuthenticated
       (auth_onmessage ''pk'' 0 0 (Some (JArr [JStr ''OK'', JStr other_id, JBool True, JStr []]))
          session_timed_out)"
proof -
  let ?m = "JArr [JStr ''OK'', JStr other_id, JBool True, JStr []]"
  have h: "\<not> isAuthenticated session_connected" "promises session_connected = [Pending]"
    "sent (sockets session_connected ! 0)
       = [REQ ''auth_trigger'' [(''kinds'', JArr [JNum 1]), (''limit'', JNum 1)]]"
    unfolding scenario_defs by code_simp+
  have k: "\<not> isAuthenticated pool_connected" "promises pool_connected = [Pending]"
    unfolding scenario_defs by code_simp+
  have f: "\<not> isAuthenticated session_timed_out
            \<and> isAuthenticated (on_message (AuthOnMessage ''pk'' 0 0)
                                 (ok_message other_id True []) session_timed_out)"
    unfolding scenario_defs by code_simp
  have g: "\<not> js_nullish ?m \<and> js_get ?m 0 = JStr ''OK'' \<and> js_get ?m 2 = JBool True
             \<and> js_length (js_get ?m 1) = Some (JNum 64)"
    unfolding scenario_defs by code_simp
  note refused = publish_before_authentication
         [where w = session_connected and v = pool_connected and c = "''hello''"
            and dTag = "''note-1''" and additionalTags = "[]" and data = None
            and message = ?m and pk = "''pk''" and t = 0 and p = 0
            and h = "AuthOnMessage ''pk'' 0 0"]
  note late = publish_before_authentication
         [where w = session_timed_out and v = pool_connected and c = "''hello''"
            and dTag = "''note-1''" and additionalTags = "[]"
            and data = "ok_message other_id True []"
            and message = ?m and pk = "''pk''" and t = 0 and p = 0
            and h = "AuthOnMessage ''pk'' 0 0"]
  from refused h k
  have a: "snd (publishKind30078Event ''hello'' ''note-1'' [] session_connected) =
     session_connected\<lparr>promises := [Pending, Rejected NotAuthenticated]\<rparr>
   \<and> sent (sockets (snd (publishKind30078Event ''hello'' ''note-1'' [] session_connected)) ! 0)
       = [REQ ''auth_trigger'' [(''kinds'', JArr [JNum 1]), (''limit'', JNum 1)]]
   \<and> snd (pool_publishKind30078Event ''hello'' ''note-1'' [] pool_connected) =
       pool_connected\<lparr>promises := [Pending, Rejected NotAuthenticated]\<rparr>"
    by simp
  from late f
  have b: "\<exists>m. ok_message other_id True [] = Some m \<and> js_get m 0 = JStr ''OK''
          \<and> js_get m 2 = JBool True \<and> js_length (js_get m 1) = Some (JNum 64)"
    by blast
  from late g
  have c: "isAuthenticated (auth_onmessage ''pk'' 0 0 (Some ?m) session_timed_out)"
    by blast
  from a b c show ?thesis by blast
qed

subsection \<open>Disconnecting\<close>




subsection \<open>The proof record\<close>

text \<open>
  C6, as stated, fails, in two ways. A second challenge \<^verbatim>\<open>c2\<close> arrives while the signer
  works on the proof for \<^verbatim>\<open>c1\<close>: when the signer returns, the proof for \<^verbatim>\<open>c1\<close> is sent,
  although \<^verbatim>\<open>c2\<close> is the challenge received last. And after a timed-out \<^verbatim>\<open>authenticate()\<close>
  and a retry, a challenge that arrives on the first socket is answered on the second:
  the proof goes out on a connection that never received its challenge.
\<close>

theorem stale_proof_is_sent:
  "authChallenge session_two_challenges = JStr ''c2''
   \<and> tags signedProof = [[''relay'', ''ws://localhost:3334''], [''challenge'', ''c1'']]
   \<and> signed_from (authEvent ''ws://localhost:3334'' (JStr ''c1'') ''pk'' 1700000000123)
        signedProof
   \<and> awaiting session_two_challenges ! 1
       = OnMessageAwaitsSign (authEvent ''ws://localhost:3334'' (JStr ''c1'') ''pk'' 1700000000123)
   \<and> sent (sockets session_stale_proof ! 0)
       = [REQ ''auth_trigger'' [(''kinds'', JArr [JNum 1]), (''limit'', JNum 1)], AUTH signedProof]
   \<and> authChallenge session_stale_proof = JStr ''c2''
   \<and> relay session_retry = Some 1
   \<and> sent (sockets session_crossed_proof ! 0)
       = [REQ ''auth_trigger'' [(''kinds'', JArr [JNum 1]), (''limit'', JNum 1)]]
   \<and> sent (sockets session_crossed_proof ! 1)
       = [REQ ''auth_trigger'' [(''kinds'', JArr [JNum 1]), (''limit'', JNum 1)], AUTH signedProof]"
  unfolding scenario_defs by code_simp

text \<open>
  C6, amended. The record the session builds in answer to a challenge and hands to the
  signer has the kind 22242, the empty content and the two tags
  \<^verbatim>\<open>["relay", config.relayUrl]\<close> and \<^verbatim>\<open>["challenge", c]\<close>, where \<open>c\<close> is the challenge of the
  message being handled, the one received last at that moment and what \<^verbatim>\<open>authChallenge\<close>
  holds afterwards. The handler asks for no other signature. When the signer returns, the
  session sends what it returned, as the \<^verbatim>\<open>AUTH\<close> message, on the socket the service holds
  then; it compares neither the challenge nor the socket with those of the request. So a
  signer that keeps the fields of the record makes the proof sent carry exactly that
  challenge and that URL. The pool service builds the same record, sends what the signer
  returned and then adds its \<^verbatim>\<open>ok\<close> listener.
\<close>

theorem proof_record_binds_challenge_and_relay:
  "(\<not> js_nullish message \<and> js_get message 0 = JStr ''AUTH''
      \<and> js_toString (js_get message 1) \<noteq> None \<and> nostr w
     \<longrightarrow> auth_onmessage pk t p (Some message) w =
           w\<lparr>authChallenge := js_get message 1,
             awaiting := awaiting w @
               [OnMessageAwaitsSign
                  \<lparr>kind = 22242, created_at = now w div 1000,
                   tags = [[JStr ''relay'', JStr (relayUrl w)],
                           [JStr ''challenge'', js_get message 1]],
                   content = [], pubkey = pk\<rparr>]\<rparr>)
   \<and> (awaiting (auth_onmessage pk t p data w) = awaiting w
      \<or> (\<exists>m. data = Some m \<and> js_get m 0 = JStr ''AUTH''
            \<and> authChallenge (auth_onmessage pk t p data w) = js_get m 1
            \<and> awaiting (auth_onmessage pk t p data w) = awaiting w @
                 [OnMessageAwaitsSign
                    \<lparr>kind = 22242, created_at = now w div 1000,
                     tags = [[JStr ''relay'', JStr (relayUrl w)],
                             [JStr ''challenge'', js_get m 1]],
                     content = [], pubkey = pk\<rparr>]))
   \<and> (relay w = Some r \<and> r < length (sockets w) \<and> readyState (sockets w ! r) = OPEN
     \<longrightarrow> sent (sockets (auth_onmessage_resume (Inr signedAuthEvent) w) ! r) =
           sent (sockets w ! r) @ [AUTH signedAuthEvent])
   \<and> (nostr v
     \<longrightarrow> pool_auth_listener pk t p challenge v =
           v\<lparr>pool_awaiting := pool_awaiting v @
               [PoolAuthAwaitsSign
                  \<lparr>kind = 22242, created_at = now v div 1000,
                   tags = [[JStr ''relay'', JStr (relayUrl v)],
                           [JStr ''challenge'', JStr challenge]],
                   content = [], pubkey = pk\<rparr> t p]\<rparr>)
   \<and> (k < length (awaiting w) \<and> awaiting w ! k = OnMessageAwaitsSign ev
      \<and> relay w = Some r \<and> r < length (sockets w) \<and> readyState (sockets w ! r) = OPEN
     \<longrightarrow> sent (sockets (signer_settles k (Signed signedAuthEvent) w) ! r) =
           sent (sockets w ! r) @ [AUTH signedAuthEvent]
         \<and> (\<forall>q. q \<noteq> r \<longrightarrow> sockets (signer_settles k (Signed signedAuthEvent) w) ! q
                              = sockets w ! q))
   \<and> (\<not> js_nullish message \<and> js_get message 0 = JStr ''AUTH''
      \<and> js_get message 1 = JStr c \<and> nostr w
      \<and> relay w = Some r \<and> r < length (sockets w) \<and> readyState (sockets w ! r) = OPEN
      \<and> signed_from (authEvent (relayUrl w) (JStr c) pk (now w)) signedAuthEvent
     \<longrightarrow> sent (sockets (signer_settles (length (awaiting w)) (Signed signedAuthEvent)
                           (auth_onmessage pk t p (Some message) w)) ! r) =
           sent (sockets w ! r) @ [AUTH signedAuthEvent]
         \<and> kind signedAuthEvent = 22242 \<and> content signedAuthEvent = []
         \<and> tags signedAuthEvent = [[''relay'', relayUrl w], [''challenge'', c]])
   \<and> (relay v = Some r' \<and> r' < length (relays v)
     \<longrightarrow> transmitted (relays (pool_auth_listener_resume t p (Inr signedAuthEvent) v) ! r') =
           transmitted (relays v ! r') @ [AUTH signedAuthEvent]
         \<and> ok_listeners (relays (pool_auth_listener_resume t p (Inr signedAuthEvent) v) ! r') =
           ok_listeners (relays v ! r') @ [AuthOkListener t p])"
proof (intro conjI impI)
  assume "\<not> js_nullish message \<and> js_get message 0 = JStr ''AUTH''
      \<and> js_toString (js_get message 1) \<noteq> None \<and> nostr w"
  then show "auth_onmessage pk t p (Some message) w =
           w\<lparr>authChallenge := js_get message 1,
             awaiting := awaiting w @
               [OnMessageAwaitsSign
                  \<lparr>kind = 22242, created_at = now w div 1000,
                   tags = [[JStr ''relay'', JStr (relayUrl w)],
                           [JStr ''challenge'', js_get message 1]],
                   content = [], pubkey = pk\<rparr>]\<rparr>"
    by (auto simp add: auth_onmessage_def authEvent_def Let_def)
next
  show "awaiting (auth_onmessage pk t p data w) = awaiting w
      \<or> (\<exists>m. data = Some m \<and> js_get m 0 = JStr ''AUTH''
            \<and> authChallenge (auth_onmessage pk t p data w) = js_get m 1
            \<and> awaiting (auth_onmessage pk t p data w) = awaiting w @
                 [OnMessageAwaitsSign
                    \<lparr>kind = 22242, created_at = now w div 1000,
                     tags = [[JStr ''relay'', JStr (relayUrl w)],
                             [JStr ''challenge'', js_get m 1]],
                     content = [], pubkey = pk\<rparr>])"
    by (cases data)
       (auto simp add: auth_onmessage_def authEvent_def settle_def clearTimeout_def Let_def
             split: option.splits)
next
  assume "relay w = Some r \<and> r < length (sockets w) \<and> readyState (sockets w ! r) = OPEN"
  then show "sent (sockets (auth_onmessage_resume (Inr signedAuthEvent) w) ! r) =
           sent (sockets w ! r) @ [AUTH signedAuthEvent]"
    by (simp add: auth_onmessage_resume_def relay_send_def ws_send_def nth_modify)
next
  assume "nostr v"
  then show "pool_auth_listener pk t p challenge v =
           v\<lparr>pool_awaiting := pool_awaiting v @
               [PoolAuthAwaitsSign
                  \<lparr>kind = 22242, created_at = now v div 1000,
                   tags = [[JStr ''relay'', JStr (relayUrl v)],
                           [JStr ''challenge'', JStr challenge]],
                   content = [], pubkey = pk\<rparr> t p]\<rparr>"
    by (simp add: pool_auth_listener_def authEvent_def)
next
  assume a: "k < length (awaiting w) \<and> awaiting w ! k = OnMessageAwaitsSign ev
      \<and> relay w = Some r \<and> r < length (sockets w) \<and> readyState (sockets w ! r) = OPEN"
  then show "sent (sockets (signer_settles k (Signed signedAuthEvent) w) ! r) =
           sent (sockets w ! r) @ [AUTH signedAuthEvent]"
    by (simp add: signer_settles_def auth_onmessage_resume_def relay_send_def ws_send_def
          nth_modify)
  from a show "\<forall>q. q \<noteq> r \<longrightarrow> sockets (signer_settles k (Signed signedAuthEvent) w) ! q
                              = sockets w ! q"
    by (simp add: signer_settles_def auth_onmessage_resume_def relay_send_def ws_send_def
          nth_modify)
next
  assume a: "\<not> js_nullish message \<and> js_get message 0 = JStr ''AUTH''
      \<and> js_get message 1 = JStr c \<and> nostr w
      \<and> relay w = Some r \<and> r < length (sockets w) \<and> readyState (sockets w ! r) = OPEN
      \<and> signed_from (authEvent (relayUrl w) (JStr c) pk (now w)) signedAuthEvent"
  then show "sent (sockets (signer_settles (length (awaiting w)) (Signed signedAuthEvent)
                           (auth_onmessage pk t p (Some message) w)) ! r) =
           sent (sockets w ! r) @ [AUTH signedAuthEvent]"
    by (simp add: auth_onmessage_def authEvent_def signer_settles_def auth_onmessage_resume_def
          relay_send_def ws_send_def nth_modify nth_append Let_def)
  from a show "kind signedAuthEvent = 22242" and "content signedAuthEvent = []"
    by (simp_all add: signed_from_def authEvent_def)
  have inj: "inj (map (map JStr))"
    by (intro inj_mapI) (simp add: inj_def)
  from a have "map (map JStr) (tags signedAuthEvent)
                 = map (map JStr) [[''relay'', relayUrl w], [''challenge'', c]]"
    by (simp add: signed_from_def authEvent_def)
  with inj show "tags signedAuthEvent = [[''relay'', relayUrl w], [''challenge'', c]]"
    by (rule injD)
next
  assume "relay v = Some r' \<and> r' < length (relays v)"
  then show "transmitted (relays (pool_auth_listener_resume t p (Inr signedAuthEvent) v) ! r') =
           transmitted (relays v ! r') @ [AUTH signedAuthEvent]"
    and "ok_listeners (relays (pool_auth_listener_resume t p (Inr signedAuthEvent) v) ! r') =
           ok_listeners (relays v ! r') @ [AuthOkListener t p]"
    by (simp_all add: pool_auth_listener_resume_def pool_send_def pool_on_ok_def nth_modify)
qed

theorem proof_record_binds_challenge_and_relay_witness:
  "auth_onmessage ''pk'' 0 0 (Some (JArr [JStr ''AUTH'', JStr ''c1''])) session_connected =
     session_connected
       \<lparr>authChallenge := JStr ''c1'',
        awaiting :=
          [Resumed,
           OnMessageAwaitsSign
             \<lparr>kind = 22242, created_at = 1700000000,
              tags = [[JStr ''relay'', JStr ''ws://localhost:3334''],
                      [JStr ''challenge'', JStr ''c1'']],
              content = [], pubkey = ''pk''\<rparr>]\<rparr>
   \<and> sent (sockets (auth_onmessage_resume (Inr signedProof) session_connected) ! 0) =
       [REQ ''auth_trigger'' [(''kinds'', JArr [JNum 1]), (''limit'', JNum 1)], AUTH signedProof]
   \<and> pool_auth_listener ''pk'' 0 0 ''c1'' pool_connected =
       pool_connected
         \<lparr>pool_awaiting :=
            [PoolResumed, PoolResumed,
             PoolAuthAwaitsSign
               \<lparr>kind = 22242, created_at = 1700000000,
                tags = [[JStr ''relay'', JStr ''ws://localhost:3334''],
                        [JStr ''challenge'', JStr ''c1'']],
                content = [], pubkey = ''pk''\<rparr> 0 0]\<rparr>
   \<and> sent (sockets (signer_settles 1 (Signed signedProof) session_two_challenges) ! 0) =
       [REQ ''auth_trigger'' [(''kinds'', JArr [JNum 1]), (''limit'', JNum 1)], AUTH signedProof]
   \<and> sent (sockets (signer_settles 1 (Signed signedProof)
              (auth_onmessage ''pk'' 0 0 (Some (JArr [JStr ''AUTH'', JStr ''c1'']))
                 session_connected)) ! 0) =
       [REQ ''auth_trigger'' [(''kinds'', JArr [JNum 1]), (''limit'', JNum 1)], AUTH signedProof]
   \<and> tags signedProof = [[''relay'', ''ws://localhost:3334''], [''challenge'', ''c1'']]
   \<and> transmitted (relays (pool_auth_listener_resume 0 0 (Inr signedProof) pool_connected) ! 0) =
       [REQ ''auth-trigger'' [(''limit'', JNum 1)], AUTH signedProof]
   \<and> ok_listeners (relays (pool_auth_listener_resume 0 0 (Inr signedProof) pool_connected) ! 0) =
       [AuthOkListener 0 0]"
proof -
  let ?m = "JArr [JStr ''AUTH'', JStr ''c1'']"
  let ?ev = "authEvent ''ws://localhost:3334'' (JStr ''c1'') ''pk'' 1700000000123"
  have m: "\<not> js_nullish ?m \<and> js_get ?m 0 = JStr ''AUTH''
             \<and> js_toString (js_get ?m 1) \<noteq> None \<and> nostr session_connected"
    "js_get ?m 1 = JStr ''c1''"
    unfolding scenario_defs by code_simp+
  have s: "relay session_connected = Some 0 \<and> 0 < length (sockets session_connected)
             \<and> readyState (sockets session_connected ! 0) = OPEN"
    "relayUrl session_connected = ''ws://localhost:3334''"
    "now session_connected div 1000 = 1700000000"
    "awaiting session_connected = [Resumed]"
    "sent (sockets session_connected ! 0)
       = [REQ ''auth_trigger'' [(''kinds'', JArr [JNum 1]), (''limit'', JNum 1)]]"
    unfolding scenario_defs by code_simp+
  have k: "nostr pool_connected"
    "relayUrl pool_connected = ''ws://localhost:3334''"
    "now pool_connected div 1000 = 1700000000"
    "pool_awaiting pool_connected = [PoolResumed, PoolResumed]"
    unfolding scenario_defs by code_simp+
  have two: "1 < length (awaiting session_two_challenges)
      \<and> awaiting session_two_challenges ! 1 = OnMessageAwaitsSign ?ev
      \<and> relay session_two_challenges = Some 0 \<and> 0 < length (sockets session_two_challenges)
      \<and> readyState (sockets session_two_challenges ! 0) = OPEN"
    "sent (sockets session_two_challenges ! 0)
       = [REQ ''auth_trigger'' [(''kinds'', JArr [JNum 1]), (''limit'', JNum 1)]]"
    unfolding scenario_defs by code_simp+
  have e: "\<not> js_nullish ?m \<and> js_get ?m 0 = JStr ''AUTH''
      \<and> js_get ?m 1 = JStr ''c1'' \<and> nostr session_connected
      \<and> relay session_connected = Some 0 \<and> 0 < length (sockets session_connected)
      \<and> readyState (sockets session_connected ! 0) = OPEN
      \<and> signed_from (authEvent (relayUrl session_connected) (JStr ''c1'') ''pk''
                       (now session_connected)) signedProof"
    "length (awaiting session_connected) = 1"
    unfolding scenario_defs by code_simp+
  have l: "relay pool_connected = Some 0 \<and> 0 < length (relays pool_connected)"
    "transmitted (relays pool_connected ! 0) = [REQ ''auth-trigger'' [(''limit'', JNum 1)]]"
    "ok_listeners (relays pool_connected ! 0) = []"
    unfolding scenario_defs by code_simp+
  note request = proof_record_binds_challenge_and_relay
         [where message = ?m and w = session_connected and pk = "''pk''" and t = 0 and p = 0
            and r = 0 and signedAuthEvent = signedProof and v = pool_connected
            and challenge = "''c1''" and data = None and k = 0 and ev = ?ev
            and c = "''c1''" and r' = 0]
  note overtaken = proof_record_binds_challenge_and_relay
         [where message = ?m and w = session_two_challenges and pk = "''pk''" and t = 0
            and p = 0 and r = 0 and signedAuthEvent = signedProof and v = pool_connected
            and challenge = "''c1''" and data = None and k = 1 and ev = ?ev
            and c = "''c1''" and r' = 0]
  from request [THEN conjunct1] m s
  have a: "auth_onmessage ''pk'' 0 0 (Some ?m) session_connected =
     session_connected
       \<lparr>authChallenge := JStr ''c1'',
        awaiting :=
          [Resumed,
           OnMessageAwaitsSign
             \<lparr>kind = 22242, created_at = 1700000000,
              tags = [[JStr ''relay'', JStr ''ws://localhost:3334''],
                      [JStr ''challenge'', JStr ''c1'']],
              content = [], pubkey = ''pk''\<rparr>]\<rparr>"
    by simp
  from request [THEN conjunct2, THEN conjunct2, THEN conjunct1] s
  have b: "sent (sockets (auth_onmessage_resume (Inr signedProof) session_connected) ! 0) =
       [REQ ''auth_trigger'' [(''kinds'', JArr [JNum 1]), (''limit'', JNum 1)], AUTH signedProof]"
    by simp
  from request [THEN conjunct2, THEN conjunct2, THEN conjunct2, THEN conjunct1] k
  have c: "pool_auth_listener ''pk'' 0 0 ''c1'' pool_connected =
       pool_connected
         \<lparr>pool_awaiting :=
            [PoolResumed, PoolResumed,
             PoolAuthAwaitsSign
               \<lparr>kind = 22242, created_at = 1700000000,
                tags = [[JStr ''relay'', JStr ''ws://localhost:3334''],
                        [JStr ''challenge'', JStr ''c1'']],
                content = [], pubkey = ''pk''\<rparr> 0 0]\<rparr>"
    by simp
  from overtaken [THEN conjunct2, THEN conjunct2, THEN conjunct2, THEN conjunct2,
                  THEN conjunct1] two
  have d: "sent (sockets (signer_settles 1 (Signed signedProof) session_two_challenges) ! 0) =
       [REQ ''auth_trigger'' [(''kinds'', JArr [JNum 1]), (''limit'', JNum 1)], AUTH signedProof]"
    by simp
  from request [THEN conjunct2, THEN conjunct2, THEN conjunct2, THEN conjunct2,
                THEN conjunct2, THEN conjunct1] e s
  have f: "sent (sockets (signer_settles 1 (Signed signedProof)
              (auth_onmessage ''pk'' 0 0 (Some ?m) session_connected)) ! 0) =
       [REQ ''auth_trigger'' [(''kinds'', JArr [JNum 1]), (''limit'', JNum 1)], AUTH signedProof]
     \<and> tags signedProof = [[''relay'', ''ws://localhost:3334''], [''challenge'', ''c1'']]"
    by simp
  from request [THEN conjunct2, THEN conjunct2, THEN conjunct2, THEN conjunct2,
                THEN conjunct2, THEN conjunct2] l
  have g: "transmitted (relays (pool_auth_listener_resume 0 0 (Inr signedProof) pool_connected) ! 0)
       = [REQ ''auth-trigger'' [(''limit'', JNum 1)], AUTH signedProof]
     \<and> ok_listeners (relays (pool_auth_listener_resume 0 0 (Inr signedProof) pool_connected) ! 0)
       = [AuthOkListener 0 0]"
    by simp
  from a b c d f g show ?thesis by blast
qed

subsection \<open>The published record\<close>

text \<open>
  C7, as stated, fails: the call \<^verbatim>\<open>publishKind30078Event('hello', 'a', [['d', 'b']])\<close> on
  the authenticated session hands the signer a record with two distinguishing-tag
  entries, since the caller's tags are appended as they are.
\<close>

theorem publish_record_two_d_entries:
  "awaiting (signer_settles 2 (PublicKey ''pk'')
      (snd (publishKind30078Event ''hello'' ''a'' [[''d'', ''b'']] session_authenticated))) ! 3
     = PublishAwaitsSign 1
         \<lparr>kind = 30078, created_at = 1700000000, tags = [[''d'', ''a''], [''d'', ''b'']],
          content = ''hello'', pubkey = ''pk''\<rparr>
   \<and> length (dTag_entries
        (tags (kind30078Event ''hello'' ''a'' [[''d'', ''b'']] ''pk'' 1700000000123))) = 2"
  unfolding scenario_defs by code_simp

text \<open>
  C7, amended. The record \<^verbatim>\<open>publishKind30078Event(content, dTag, additionalTags)\<close> builds
  and hands to the signer has the kind 30078, the caller's content, and the tag list
  \<^verbatim>\<open>["d", dTag]\<close> followed by the caller's tags in their order; it has exactly one
  distinguishing-tag entry exactly when none of the caller's tags is one. What the
  signer returns for it is sent as the \<^verbatim>\<open>EVENT\<close> message.
\<close>

theorem publish_record_shape:
  "kind (kind30078Event c dTag additionalTags pk clock) = 30078
   \<and> content (kind30078Event c dTag additionalTags pk clock) = c
   \<and> tags (kind30078Event c dTag additionalTags pk clock) = [''d'', dTag] # additionalTags
   \<and> (length (dTag_entries (tags (kind30078Event c dTag additionalTags pk clock))) = 1
        \<longleftrightarrow> dTag_entries additionalTags = [])
   \<and> (nostr w
     \<longrightarrow> publish_resume_pubkey p c dTag additionalTags (Inr pk) w =
           w\<lparr>awaiting := awaiting w @
               [PublishAwaitsSign p (kind30078Event c dTag additionalTags pk (now w))]\<rparr>)
   \<and> (relay w = Some r \<and> r < length (sockets w) \<and> readyState (sockets w ! r) = OPEN
     \<longrightarrow> sent (sockets (publish_resume_signed p (Inr signedEvent) w) ! r) =
           sent (sockets w ! r) @ [EVENT signedEvent])"
  by (simp add: kind30078Event_def dTag_entries_def publish_resume_pubkey_def
        publish_resume_signed_def setTimeout_def set_onmessage_def relay_send_def ws_send_def
        nth_modify Let_def)

theorem publish_record_shape_witness:
  "publish_resume_pubkey 1 ''hello'' ''note-1'' [[''t'', ''demo'']] (Inr ''pk'')
       session_authenticated =
     session_authenticated
       \<lparr>awaiting :=
          [Resumed, Resumed,
           PublishAwaitsSign 1
             \<lparr>kind = 30078, created_at = 1700000000,
              tags = [[''d'', ''note-1''], [''t'', ''demo'']],
              content = ''hello'', pubkey = ''pk''\<rparr>]\<rparr>
   \<and> sent (sockets (publish_resume_signed 1 (Inr note1) session_authenticated) ! 0) =
       [REQ ''auth_trigger'' [(''kinds'', JArr [JNum 1]), (''limit'', JNum 1)],
        AUTH signedProof, EVENT note1]
   \<and> length (dTag_entries
        (tags (kind30078Event ''hello'' ''note-1'' [[''t'', ''demo'']] ''pk'' 1700000000123))) = 1"
proof -
  have s: "nostr session_authenticated"
    "relay session_authenticated = Some 0 \<and> 0 < length (sockets session_authenticated)
       \<and> readyState (sockets session_authenticated ! 0) = OPEN"
    "now session_authenticated = 1700000000123"
    "awaiting session_authenticated = [Resumed, Resumed]"
    "sent (sockets session_authenticated ! 0)
       = [REQ ''auth_trigger'' [(''kinds'', JArr [JNum 1]), (''limit'', JNum 1)],
          AUTH signedProof]"
    "dTag_entries [[''t'', ''demo'']] = []"
    unfolding scenario_defs by code_simp+
  from publish_record_shape
         [where w = session_authenticated and p = 1 and c = "''hello''" and dTag = "''note-1''"
            and additionalTags = "[[''t'', ''demo'']]" and pk = "''pk''"
            and clock = 1700000000123 and r = 0 and signedEvent = note1]
       s
  show ?thesis by (simp add: kind30078Event_def)
qed

subsection \<open>The acceptance of the handshake\<close>

text \<open>
  C1, as stated, fails: after the proof record with identifier \<open>proof_id\<close> has been sent,
  an \<^verbatim>\<open>OK\<close> message for the different identifier \<open>other_id\<close> (64 characters, success flag
  true) resolves the pending \<^verbatim>\<open>authenticate()\<close> and sets the authentication flag.
\<close>

theorem handshake_accepts_other_identifier:
  "other_id \<noteq> event_id signedProof
   \<and> AUTH signedProof \<in> set (sent (sockets session_proof_sent ! 0))
   \<and> promises session_proof_sent ! 0 = Pending
   \<and> promises (socket_message 0 (ok_message other_id True []) session_proof_sent) ! 0
       = Resolved (JBool True)
   \<and> isAuthenticated (socket_message 0 (ok_message other_id True []) session_proof_sent)"
  unfolding scenario_defs by code_simp

text \<open>
  C1, amended. During \<^verbatim>\<open>authenticate()\<close> the handshake handler takes an inbound \<^verbatim>\<open>OK\<close>
  message for the acceptance when its success flag is \<open>true\<close> and its identifier has
  length 64: the authentication flag is set, the timer cleared and the promise resolved
  with \<open>true\<close>. The identifier is not compared with the one of the proof record that was
  sent. An \<^verbatim>\<open>OK\<close> message with the flag \<open>true\<close> and an identifier of another length changes
  nothing, and nothing but such an acceptance resolves the pending promise. In the pool
  service the \<^verbatim>\<open>ok\<close> listener of the handshake resolves on every event with a true flag, and
  rejects on every event with a false one, whatever the identifier.
\<close>

theorem handshake_accepts_ok_by_flag_and_length:
  "(\<not> js_nullish message \<and> js_get message 0 = JStr ''OK'' \<and> js_get message 2 = JBool True
      \<and> js_length (js_get message 1) = Some (JNum 64)
     \<longrightarrow> auth_onmessage pk t p (Some message) w =
           settle p (Resolved (JBool True)) (clearTimeout t (w\<lparr>isAuthenticated := True\<rparr>)))
   \<and> (js_get message 0 = JStr ''OK'' \<and> js_get message 2 = JBool True
      \<and> js_length (js_get message 1) \<noteq> Some (JNum 64)
     \<longrightarrow> auth_onmessage pk t p (Some message) w = w)
   \<and> (p < length (promises w) \<and> promises w ! p = Pending
      \<and> promises (auth_onmessage pk t p data w) ! p = Resolved x
     \<longrightarrow> (\<exists>m. data = Some m \<and> js_get m 0 = JStr ''OK'' \<and> js_get m 2 = JBool True
              \<and> js_length (js_get m 1) = Some (JNum 64) \<and> x = JBool True))
   \<and> pool_auth_ok t p eventId True reason v =
        settle p (Resolved (JBool True)) (clearTimeout t (v\<lparr>isAuthenticated := True\<rparr>))
   \<and> pool_auth_ok t p eventId False reason v =
        settle p (Rejected (Error (''Authentication failed: '' @ reason))) (clearTimeout t v)"
proof (intro conjI impI)
  assume "\<not> js_nullish message \<and> js_get message 0 = JStr ''OK'' \<and> js_get message 2 = JBool True
      \<and> js_length (js_get message 1) = Some (JNum 64)"
  then show "auth_onmessage pk t p (Some message) w =
           settle p (Resolved (JBool True)) (clearTimeout t (w\<lparr>isAuthenticated := True\<rparr>))"
    by (simp add: auth_onmessage_def)
next
  assume "js_get message 0 = JStr ''OK'' \<and> js_get message 2 = JBool True
      \<and> js_length (js_get message 1) \<noteq> Some (JNum 64)"
  then show "auth_onmessage pk t p (Some message) w = w"
    by (auto simp add: auth_onmessage_def split: option.split)
next
  assume a: "p < length (promises w) \<and> promises w ! p = Pending
      \<and> promises (auth_onmessage pk t p data w) ! p = Resolved x"
  show "\<exists>m. data = Some m \<and> js_get m 0 = JStr ''OK'' \<and> js_get m 2 = JBool True
              \<and> js_length (js_get m 1) = Some (JNum 64) \<and> x = JBool True"
  proof (cases data)
    case None
    with a show ?thesis by (auto simp add: auth_onmessage_def)
  next
    case (Some m)
    with a show ?thesis
      by (auto simp add: auth_onmessage_def settle_def clearTimeout_def nth_modify Let_def
               split: if_splits option.splits)
  qed
next
  show "pool_auth_ok t p eventId True reason v =
        settle p (Resolved (JBool True)) (clearTimeout t (v\<lparr>isAuthenticated := True\<rparr>))"
    by (simp add: pool_auth_ok_def)
next
  show "pool_auth_ok t p eventId False reason v =
        settle p (Rejected (Error (''Authentication failed: '' @ reason))) (clearTimeout t v)"
    by (simp add: pool_auth_ok_def)
qed

theorem handshake_accepts_ok_by_flag_and_length_witness:
  "auth_onmessage ''pk'' 0 0 (Some (JArr [JStr ''OK'', JStr other_id, JBool True, JStr []]))
       session_proof_sent =
     settle 0 (Resolved (JBool True))
       (clearTimeout 0 (session_proof_sent\<lparr>isAuthenticated := True\<rparr>))
   \<and> auth_onmessage ''pk'' 0 0 (Some (JArr [JStr ''OK'', JStr ''e1'', JBool True, JStr []]))
       session_proof_sent = session_proof_sent
   \<and> (\<exists>m. Some (JArr [JStr ''OK'', JStr other_id, JBool True, JStr []]) = Some m
          \<and> js_get m 0 = JStr ''OK'' \<and> js_get m 2 = JBool True
          \<and> js_length (js_get m 1) = Some (JNum 64))"
proof -
  let ?m = "JArr [JStr ''OK'', JStr other_id, JBool True, JStr []]"
  let ?s = "JArr [JStr ''OK'', JStr ''e1'', JBool True, JStr []]"
  have h1: "\<not> js_nullish ?m \<and> js_get ?m 0 = JStr ''OK'' \<and> js_get ?m 2 = JBool True
              \<and> js_length (js_get ?m 1) = Some (JNum 64)"
    unfolding scenario_defs by code_simp
  have h2: "js_get ?s 0 = JStr ''OK'' \<and> js_get ?s 2 = JBool True
              \<and> js_length (js_get ?s 1) \<noteq> Some (JNum 64)"
    by code_simp
  have h3: "0 < length (promises session_proof_sent) \<and> promises session_proof_sent ! 0 = Pending
              \<and> promises (auth_onmessage ''pk'' 0 0 (Some ?m) session_proof_sent) ! 0
                  = Resolved (JBool True)"
    unfolding scenario_defs by code_simp
  note accepted = handshake_accepts_ok_by_flag_and_length
                    [where message = ?m and data = "Some ?m" and x = "JBool True"
                       and w = session_proof_sent and pk = "''pk''" and t = 0 and p = 0]
  note ignored = handshake_accepts_ok_by_flag_and_length
                    [where message = ?s and data = "Some ?s" and x = "JBool True"
                       and w = session_proof_sent and pk = "''pk''" and t = 0 and p = 0]
  from accepted h1 h3 ignored h2 show ?thesis by blast
qed

subsection \<open>A failed handshake\<close>

text \<open>
  C3, as stated, fails: when the timer of \<^verbatim>\<open>authenticate()\<close> fires on the connected
  session, and when the relay rejects with \<^verbatim>\<open>auth-required\<close> after the proof was sent, the
  promise is rejected, but the service still holds its socket and the socket is still
  open.
\<close>

theorem authenticate_timeout_keeps_socket_open:
  "promises session_connected ! 0 = Pending
   \<and> promises (timer_fires 0 session_connected) ! 0 = Rejected AuthenticationTimeout
   \<and> relay (timer_fires 0 session_connected) = Some 0
   \<and> readyState (sockets (timer_fires 0 session_connected) ! 0) = OPEN
   \<and> promises (socket_message 0 (ok_message proof_id False ''auth-required: denied'')
                 session_proof_sent) ! 0 = Rejected AuthenticationFailed
   \<and> relay (socket_message 0 (ok_message proof_id False ''auth-required: denied'')
                 session_proof_sent) = Some 0
   \<and> readyState (sockets (socket_message 0 (ok_message proof_id False ''auth-required: denied'')
                 session_proof_sent) ! 0) = OPEN"
  unfolding scenario_defs by code_simp

text \<open>
  C3, amended. \<^verbatim>\<open>authenticate()\<close> sets one timer, before it creates the socket, of
  \<^verbatim>\<open>config.timeout\<close> or 10000 when that is absent or zero. When the timer fires, the pending
  promise is rejected with \<^verbatim>\<open>Authentication timeout\<close>; when the handshake handler receives
  an \<^verbatim>\<open>OK\<close> message with the success flag \<open>false\<close> and a text that includes
  \<^verbatim>\<open>auth-required\<close>, whatever its identifier, the timer is cleared and the promise rejected
  with \<^verbatim>\<open>Authentication required but failed\<close>. In both cases nothing else changes: the
  socket is not closed, and the relay the service holds, the authentication flag and the
  stored challenge are what they were. An \<^verbatim>\<open>OK\<close> message with the flag \<open>false\<close> whose text
  does not include \<^verbatim>\<open>auth-required\<close> changes nothing at all.
\<close>

theorem authenticate_failure_leaves_connection:
  "relay (auth_timeout p w) = relay w
   \<and> sockets (auth_timeout p w) = sockets w
   \<and> isAuthenticated (auth_timeout p w) = isAuthenticated w
   \<and> authChallenge (auth_timeout p w) = authChallenge w
   \<and> (p < length (promises w) \<and> promises w ! p = Pending
     \<longrightarrow> promises (auth_timeout p w) ! p = Rejected AuthenticationTimeout)
   \<and> (t < length (timers w) \<and> live (timers w ! t) \<and> callback (timers w ! t) = RejectAuthTimeout p
     \<longrightarrow> relay (timer_fires t w) = relay w \<and> sockets (timer_fires t w) = sockets w
         \<and> isAuthenticated (timer_fires t w) = isAuthenticated w
         \<and> authChallenge (timer_fires t w) = authChallenge w
         \<and> promises (timer_fires t w) = promises (auth_timeout p w))
   \<and> timers (authenticate_resume p (Inr pk) w) =
        timers w @ [\<lparr>callback = RejectAuthTimeout p,
                     delay = (case timeout w of None \<Rightarrow> 10000
                              | Some n \<Rightarrow> if n = 0 then 10000 else n),
                     live = url_ok w\<rparr>]
   \<and> (\<not> js_nullish message \<and> js_get message 0 = JStr ''OK'' \<and> js_get message 2 = JBool False
      \<and> js_get message 3 = JStr reason \<and> includes_str reason ''auth-required''
     \<longrightarrow> auth_onmessage pk t p (Some message) w =
           settle p (Rejected AuthenticationFailed) (clearTimeout t w)
         \<and> relay (auth_onmessage pk t p (Some message) w) = relay w
         \<and> sockets (auth_onmessage pk t p (Some message) w) = sockets w
         \<and> isAuthenticated (auth_onmessage pk t p (Some message) w) = isAuthenticated w
         \<and> authChallenge (auth_onmessage pk t p (Some message) w) = authChallenge w)
   \<and> (js_get message 0 = JStr ''OK'' \<and> js_get message 2 = JBool False
      \<and> js_get message 3 = JStr reason \<and> \<not> includes_str reason ''auth-required''
     \<longrightarrow> auth_onmessage pk t p (Some message) w = w)"
proof (intro conjI impI)
  assume "js_get message 0 = JStr ''OK'' \<and> js_get message 2 = JBool False
      \<and> js_get message 3 = JStr reason \<and> \<not> includes_str reason ''auth-required''"
  then show "auth_onmessage pk t p (Some message) w = w"
    by (simp add: auth_onmessage_def js_truthy_def js_includes_def)
next
  show "timers (authenticate_resume p (Inr pk) w) =
        timers w @ [\<lparr>callback = RejectAuthTimeout p,
                     delay = (case timeout w of None \<Rightarrow> 10000
                              | Some n \<Rightarrow> if n = 0 then 10000 else n),
                     live = url_ok w\<rparr>]"
    by (simp add: authenticate_resume_def setTimeout_def timeout_or_default_def settle_def
          clearTimeout_def modify_def nth_append)
next
  assume a: "\<not> js_nullish message \<and> js_get message 0 = JStr ''OK'' \<and> js_get message 2 = JBool False
      \<and> js_get message 3 = JStr reason \<and> includes_str reason ''auth-required''"
  then have "reason \<noteq> []" by (cases reason) auto
  with a show eq: "auth_onmessage pk t p (Some message) w =
           settle p (Rejected AuthenticationFailed) (clearTimeout t w)"
    by (simp add: auth_onmessage_def js_truthy_def js_includes_def)
  then show "relay (auth_onmessage pk t p (Some message) w) = relay w"
    and "sockets (auth_onmessage pk t p (Some message) w) = sockets w"
    and "isAuthenticated (auth_onmessage pk t p (Some message) w) = isAuthenticated w"
    and "authChallenge (auth_onmessage pk t p (Some message) w) = authChallenge w"
    by (simp_all add: settle_def clearTimeout_def)
qed (auto simp add: auth_timeout_def timer_fires_def settle_def nth_modify Let_def)

theorem authenticate_failure_leaves_connection_witness:
  "promises (auth_timeout 0 session_connected) ! 0 = Rejected AuthenticationTimeout
   \<and> sockets (timer_fires 0 session_connected) = sockets session_connected
   \<and> relay (timer_fires 0 session_connected) = relay session_connected
   \<and> promises (timer_fires 0 session_connected) = promises (auth_timeout 0 session_connected)
   \<and> auth_onmessage ''pk'' 0 0
         (Some (JArr [JStr ''OK'', JStr proof_id, JBool False, JStr ''auth-required: denied'']))
         session_proof_sent =
       settle 0 (Rejected AuthenticationFailed) (clearTimeout 0 session_proof_sent)
   \<and> sockets (auth_onmessage ''pk'' 0 0
         (Some (JArr [JStr ''OK'', JStr proof_id, JBool False, JStr ''auth-required: denied'']))
         session_proof_sent) = sockets session_proof_sent
   \<and> auth_onmessage ''pk'' 0 0
         (Some (JArr [JStr ''OK'', JStr proof_id, JBool False, JStr ''invalid: bad signature'']))
         session_proof_sent = session_proof_sent"
proof -
  let ?n = "JArr [JStr ''OK'', JStr proof_id, JBool False, JStr ''invalid: bad signature'']"
  have h4: "js_get ?n 0 = JStr ''OK'' \<and> js_get ?n 2 = JBool False
              \<and> js_get ?n 3 = JStr ''invalid: bad signature''
              \<and> \<not> includes_str ''invalid: bad signature'' ''auth-required''"
    by code_simp
  note other_rejection = authenticate_failure_leaves_connection
                     [where w = session_proof_sent and p = 0 and t = 0 and message = ?n
                        and reason = "''invalid: bad signature''" and pk = "''pk''"]
  let ?m = "JArr [JStr ''OK'', JStr proof_id, JBool False, JStr ''auth-required: denied'']"
  have h1: "0 < length (promises session_connected) \<and> promises session_connected ! 0 = Pending"
    unfolding scenario_defs by code_simp
  have h2: "0 < length (timers session_connected) \<and> live (timers session_connected ! 0)
              \<and> callback (timers session_connected ! 0) = RejectAuthTimeout 0"
    unfolding scenario_defs by code_simp
  have h3: "\<not> js_nullish ?m \<and> js_get ?m 0 = JStr ''OK'' \<and> js_get ?m 2 = JBool False
              \<and> js_get ?m 3 = JStr ''auth-required: denied''
              \<and> includes_str ''auth-required: denied'' ''auth-required''"
    by code_simp
  note timed_out = authenticate_failure_leaves_connection
                     [where w = session_connected and p = 0 and t = 0 and message = ?m
                        and reason = "''auth-required: denied''" and pk = "''pk''"]
  note rejected = authenticate_failure_leaves_connection
                     [where w = session_proof_sent and p = 0 and t = 0 and message = ?m
                        and reason = "''auth-required: denied''" and pk = "''pk''"]
  from timed_out h1 h2
  have a: "promises (auth_timeout 0 session_connected) ! 0 = Rejected AuthenticationTimeout
   \<and> sockets (timer_fires 0 session_connected) = sockets session_connected
   \<and> relay (timer_fires 0 session_connected) = relay session_connected
   \<and> promises (timer_fires 0 session_connected) = promises (auth_timeout 0 session_connected)"
    by blast
  from rejected h3
  have b: "auth_onmessage ''pk'' 0 0 (Some ?m) session_proof_sent =
       settle 0 (Rejected AuthenticationFailed) (clearTimeout 0 session_proof_sent)
   \<and> sockets (auth_onmessage ''pk'' 0 0 (Some ?m) session_proof_sent)
       = sockets session_proof_sent"
    by blast
  from other_rejection h4
  have c: "auth_onmessage ''pk'' 0 0 (Some ?n) session_proof_sent = session_proof_sent"
    by blast
  from a b c show ?thesis by blast
qed

subsection \<open>A publish that times out\<close>

text \<open>
  C4. The timer callback of a publish only rejects the promise; it never touches a
  socket. Evaluated on the session with one publish in flight: when the timer fires, the
  promise is rejected with \<^verbatim>\<open>Publish timeout\<close>, the session stays authenticated and its
  socket open, but \<^verbatim>\<open>onmessage\<close> is still the handler of that publish: the original handler
  is not put back, as it is when the matching \<^verbatim>\<open>OK\<close> arrives.
\<close>

theorem publish_timeout_keeps_handler:
  "sockets (publish_timeout p w) = sockets w
   \<and> sockets (timer_fires t w) = sockets w
   \<and> relay (timer_fires t w) = relay w
   \<and> isAuthenticated (timer_fires t w) = isAuthenticated w
   \<and> promises session_publishing ! 1 = Pending
   \<and> onmessage (sockets session_publishing ! 0)
       = Some (PublishOnMessage (Some (AuthOnMessage ''pk'' 0 0)) note1 1 1)
   \<and> promises (timer_fires 1 session_publishing) ! 1 = Rejected PublishTimeout
   \<and> onmessage (sockets (timer_fires 1 session_publishing) ! 0)
       = Some (PublishOnMessage (Some (AuthOnMessage ''pk'' 0 0)) note1 1 1)
   \<and> onmessage (sockets (socket_message 0 (ok_message ''e1'' True []) session_publishing) ! 0)
       = Some (AuthOnMessage ''pk'' 0 0)
   \<and> isAuthenticated (timer_fires 1 session_publishing)
   \<and> readyState (sockets (timer_fires 1 session_publishing) ! 0) = OPEN"
proof -
  have "sockets (publish_timeout p w) = sockets w"
    by (simp add: publish_timeout_def settle_def)
  moreover have "sockets (timer_fires t w) = sockets w \<and> relay (timer_fires t w) = relay w
   \<and> isAuthenticated (timer_fires t w) = isAuthenticated w"
    by (simp add: timer_fires_def auth_timeout_def publish_timeout_def settle_def Let_def
          split: timer_callback.split)
  moreover have "promises session_publishing ! 1 = Pending
   \<and> onmessage (sockets session_publishing ! 0)
       = Some (PublishOnMessage (Some (AuthOnMessage ''pk'' 0 0)) note1 1 1)
   \<and> promises (timer_fires 1 session_publishing) ! 1 = Rejected PublishTimeout
   \<and> onmessage (sockets (timer_fires 1 session_publishing) ! 0)
       = Some (PublishOnMessage (Some (AuthOnMessage ''pk'' 0 0)) note1 1 1)
   \<and> onmessage (sockets (socket_message 0 (ok_message ''e1'' True []) session_publishing) ! 0)
       = Some (AuthOnMessage ''pk'' 0 0)
   \<and> isAuthenticated (timer_fires 1 session_publishing)
   \<and> readyState (sockets (timer_fires 1 session_publishing) ! 0) = OPEN"
    unfolding scenario_defs by code_simp
  ultimately show ?thesis by simp
qed

subsection \<open>A second publish while one is in flight\<close>

text \<open>
  C2, as stated, fails: on the session with one publish in flight, a second call of
  \<^verbatim>\<open>publishKind30078Event\<close> is not refused. Its promise is pending after the call, its
  \<^verbatim>\<open>EVENT\<close> message goes out, and the relay's \<^verbatim>\<open>OK\<close> for it resolves it.
\<close>

theorem second_publish_goes_through:
  "promises session_publishing ! 1 = Pending
   \<and> onmessage (sockets session_publishing ! 0)
       = Some (PublishOnMessage (Some (AuthOnMessage ''pk'' 0 0)) note1 1 1)
   \<and> promises (snd (publishKind30078Event ''again'' ''note-2'' [] session_publishing)) ! 2
       = Pending
   \<and> sent (sockets session_publishing_twice ! 0)
       = sent (sockets session_publishing ! 0) @ [EVENT note2]
   \<and> promises session_publishing_twice ! 2 = Pending
   \<and> promises (socket_message 0 (ok_message ''e2'' True []) session_publishing_twice) ! 2
       = Resolved (JStr ''e2'')"
  unfolding scenario_defs by code_simp

text \<open>
  C2, amended. In a session with a publish in flight (its handler installed around the
  handshake handler, its promise pending), a second call of \<^verbatim>\<open>publishKind30078Event\<close>
  before the first has resolved is not refused: there is no guard against it. The call
  returns a pending promise and asks the signer for the public key; once the record is
  signed, it sets its timer, installs its handler around the first one's and sends its
  \<^verbatim>\<open>EVENT\<close> message. This does not supplant or lose the first publish's correlation
  target: the first handler is kept as the original handler of the second, and an \<^verbatim>\<open>OK\<close>
  message for the first identifier still resolves the first promise with that
  identifier. In the pool service the second call adds its \<^verbatim>\<open>ok\<close> listener after those
  the relay has.
\<close>

theorem second_publish_is_not_refused:
  assumes "relay w = Some r" and "r < length (sockets w)"
    and "readyState (sockets w ! r) = OPEN"
    and "onmessage (sockets w ! r) =
           Some (PublishOnMessage (Some (AuthOnMessage pk t0 p0)) first t1 p1)"
    and "p1 < length (promises w)" and "promises w ! p1 = Pending" and "p0 \<noteq> p1"
    and "isAuthenticated w" and "nostr w"
  shows "publishKind30078Event c dTag additionalTags w =
           (length (promises w),
            w\<lparr>promises := promises w @ [Pending],
              awaiting := awaiting w @
                [PublishAwaitsPubkey (length (promises w)) c dTag additionalTags]\<rparr>)
       \<and> publish_resume_signed p2 (Inr second) w =
           w\<lparr>timers := timers w @
                [\<lparr>callback = RejectPublishTimeout p2, delay = timeout_or_default w, live = True\<rparr>],
             sockets := (sockets w)
                [r := (sockets w ! r)
                   \<lparr>onmessage :=
                      Some (PublishOnMessage
                              (Some (PublishOnMessage (Some (AuthOnMessage pk t0 p0)) first t1 p1))
                              second (length (timers w)) p2),
                    sent := sent (sockets w ! r) @ [EVENT second]\<rparr>]\<rparr>
       \<and> promises (socket_message r (ok_message (event_id first) True reason)
                     (publish_resume_signed p2 (Inr second) w)) ! p1
           = Resolved (JStr (event_id first))
       \<and> (relay v = Some r' \<and> r' < length (relays v)
          \<longrightarrow> ok_listeners (relays (pool_publish_signed p2 (Inr second) v) ! r') =
                ok_listeners (relays v ! r') @ [PublishOkListener second (length (timers v)) p2]
              \<and> transmitted (relays (pool_publish_signed p2 (Inr second) v) ! r') =
                transmitted (relays v ! r') @ [EVENT second])"
proof (intro conjI impI)
  show "publishKind30078Event c dTag additionalTags w =
           (length (promises w),
            w\<lparr>promises := promises w @ [Pending],
              awaiting := awaiting w @
                [PublishAwaitsPubkey (length (promises w)) c dTag additionalTags]\<rparr>)"
    using assms by (simp add: publishKind30078Event_def getNip07Signer_def Let_def)
next
  let ?h1 = "PublishOnMessage (Some (AuthOnMessage pk t0 p0)) first t1 p1"
  let ?w' = "w\<lparr>timers := timers w @
                [\<lparr>callback = RejectPublishTimeout p2, delay = timeout_or_default w, live = True\<rparr>],
             sockets := (sockets w)
                [r := (sockets w ! r)
                   \<lparr>onmessage := Some (PublishOnMessage (Some ?h1) second (length (timers w)) p2),
                    sent := sent (sockets w ! r) @ [EVENT second]\<rparr>]\<rparr>"
  show eq: "publish_resume_signed p2 (Inr second) w = ?w'"
    using assms
    by (simp add: publish_resume_signed_def setTimeout_def set_onmessage_def relay_send_def
          ws_send_def modify_def Let_def)
  let ?m = "ok_message (event_id first) True reason"
  let ?a = "auth_onmessage pk t0 p0 ?m ?w'"
  let ?b = "publish_onmessage (Some (AuthOnMessage pk t0 p0)) first t1 p1 ?m ?a"
  have deliver: "socket_message r ?m ?w' =
      publish_onmessage (Some ?h1) second (length (timers w)) p2 ?m ?b"
    using assms by (simp add: socket_message_def)
  have a1: "relay ?a = Some r" "p1 < length (promises ?a)" "promises ?a ! p1 = Pending"
    using assms by (simp_all add: auth_onmessage_frame)
  have b1: "promises ?b ! p1 = Resolved (JStr (event_id first))"
    using a1 by (rule publish_onmessage_own_ok)
  have b2: "p1 < length (promises ?b)"
    using a1 by (simp add: publish_onmessage_frame)
  have "promises (publish_onmessage (Some ?h1) second (length (timers w)) p2 ?m ?b) ! p1
          = promises ?b ! p1"
    using b2 b1 by (intro publish_onmessage_keeps_settled) simp_all
  with b1 deliver eq
  show "promises (socket_message r ?m (publish_resume_signed p2 (Inr second) w)) ! p1
           = Resolved (JStr (event_id first))"
    by simp
next
  assume "relay v = Some r' \<and> r' < length (relays v)"
  then show "ok_listeners (relays (pool_publish_signed p2 (Inr second) v) ! r') =
                ok_listeners (relays v ! r') @ [PublishOkListener second (length (timers v)) p2]"
    and "transmitted (relays (pool_publish_signed p2 (Inr second) v) ! r') =
                transmitted (relays v ! r') @ [EVENT second]"
    by (simp_all add: pool_publish_signed_def setTimeout_def pool_on_ok_def pool_send_def
          nth_modify Let_def)
qed

theorem second_publish_is_not_refused_witness:
  "publishKind30078Event ''again'' ''note-2'' [] session_publishing =
     (2, session_publishing
           \<lparr>promises := [Resolved (JBool True), Pending, Pending],
            awaiting := [Resumed, Resumed, Resumed, Resumed,
                         PublishAwaitsPubkey 2 ''again'' ''note-2'' []]\<rparr>)
   \<and> promises (socket_message 0 (ok_message ''e1'' True [])
                 (publish_resume_signed 2 (Inr note2) session_publishing)) ! 1
       = Resolved (JStr ''e1'')
   \<and> ok_listeners (relays (pool_publish_signed 2 (Inr note2) pool_publishing) ! 0) =
       [AuthOkListener 0 0, PublishOkListener note1 1 1, PublishOkListener note2 2 2]"
proof -
  have h: "relay session_publishing = Some 0" "0 < length (sockets session_publishing)"
    "readyState (sockets session_publishing ! 0) = OPEN"
    "onmessage (sockets session_publishing ! 0) =
       Some (PublishOnMessage (Some (AuthOnMessage ''pk'' 0 0)) note1 1 1)"
    "1 < length (promises session_publishing)" "promises session_publishing ! 1 = Pending"
    "(0::nat) \<noteq> 1" "isAuthenticated session_publishing" "nostr session_publishing"
    unfolding scenario_defs by code_simp+
  have s: "promises session_publishing = [Resolved (JBool True), Pending]"
    "awaiting session_publishing = [Resumed, Resumed, Resumed, Resumed]"
    "event_id note1 = ''e1''"
    unfolding scenario_defs by code_simp+
  have k: "relay pool_publishing = Some 0 \<and> 0 < length (relays pool_publishing)"
    "ok_listeners (relays pool_publishing ! 0) = [AuthOkListener 0 0, PublishOkListener note1 1 1]"
    "length (timers pool_publishing) = 2"
    unfolding scenario_defs by code_simp+
  note second_call = second_publish_is_not_refused
         [OF h, where c = "''again''" and dTag = "''note-2''" and additionalTags = "[]"
            and ?p2.0 = 2 and second = note2 and reason = "[]" and v = pool_publishing
            and r' = 0]
  from second_call [THEN conjunct1] s
  have "publishKind30078Event ''again'' ''note-2'' [] session_publishing =
     (2, session_publishing
           \<lparr>promises := [Resolved (JBool True), Pending, Pending],
            awaiting := [Resumed, Resumed, Resumed, Resumed,
                         PublishAwaitsPubkey 2 ''again'' ''note-2'' []]\<rparr>)"
    by simp
  moreover from second_call [THEN conjunct2, THEN conjunct2, THEN conjunct1] s
  have "promises (socket_message 0 (ok_message ''e1'' True [])
                 (publish_resume_signed 2 (Inr note2) session_publishing)) ! 1
       = Resolved (JStr ''e1'')"
    by simp
  moreover from second_call [THEN conjunct2, THEN conjunct2, THEN conjunct2] k
  have "ok_listeners (relays (pool_publish_signed 2 (Inr note2) pool_publishing) ! 0) =
       [AuthOkListener 0 0, PublishOkListener note1 1 1, PublishOkListener note2 2 2]"
    by simp
  ultimately show ?thesis by blast
qed

end
